theory Spec2Isabelle
  imports Main "HOL-Library.Word"
begin

section \<open>Values of the Go libraries used by tls.go\<close>

text \<open>
  A Go byte slice is a list of 8-bit words; a nil slice is the empty list. A Go
  \<^verbatim>\<open>error\<close> value is a message; the nil error is \<open>None\<close> where the source
  returns an \<^verbatim>\<open>error\<close> alone, and the \<open>Inr\<close> side of a sum where it returns a value
  together with an error.
\<close>

type_synonym bytes = "8 word list"

datatype error = Error string

text \<open>A call either returns or stops the goroutine with a run-time panic.\<close>

datatype 'a outcome = Returns 'a | Panics string

text \<open>\<^verbatim>\<open>pem.Block\<close>, \<^verbatim>\<open>x509.Certificate\<close>, \<^verbatim>\<open>crypto.PrivateKey\<close> and
  \<^verbatim>\<open>tls.Certificate\<close>, with the fields tls.go reads or writes.\<close>

record pem_Block =
  Type :: string
  Headers :: "(string \<times> string) list"
  Bytes :: bytes

record x509_Certificate =
  Raw :: bytes
  Subject :: string
  PublicKey :: bytes

datatype crypto_PrivateKey = KeyMaterial bytes

record tls_Certificate =
  Certificate :: "bytes list"
  PrivateKey :: crypto_PrivateKey
  Leaf :: "x509_Certificate option"

record tls_ClientHelloInfo =
  ServerName :: string

text \<open>An \<^verbatim>\<open>x509.CertPool\<close> is the certificates it holds.\<close>

type_synonym x509_CertPool = "x509_Certificate list"

datatype tls_ClientAuthType =
  NoClientCert
  | RequestClientCert
  | RequireAnyClientCert
  | VerifyClientCertIfGiven
  | RequireAndVerifyClientCert

definition VersionSSL30 :: "16 word" where "VersionSSL30 = 0x0300"
definition VersionTLS10 :: "16 word" where "VersionTLS10 = 0x0301"
definition VersionTLS11 :: "16 word" where "VersionTLS11 = 0x0302"
definition VersionTLS12 :: "16 word" where "VersionTLS12 = 0x0303"

definition TLS_ECDHE_RSA_WITH_AES_128_GCM_SHA256 :: "16 word" where
  "TLS_ECDHE_RSA_WITH_AES_128_GCM_SHA256 = 0xc02f"
definition TLS_ECDHE_ECDSA_WITH_AES_128_GCM_SHA256 :: "16 word" where
  "TLS_ECDHE_ECDSA_WITH_AES_128_GCM_SHA256 = 0xc02b"
definition TLS_ECDHE_RSA_WITH_AES_256_GCM_SHA384 :: "16 word" where
  "TLS_ECDHE_RSA_WITH_AES_256_GCM_SHA384 = 0xc030"
definition TLS_ECDHE_ECDSA_WITH_AES_256_GCM_SHA384 :: "16 word" where
  "TLS_ECDHE_ECDSA_WITH_AES_256_GCM_SHA384 = 0xc02c"

text \<open>\<^verbatim>\<open>tls.Config\<close>, with the fields that \<^verbatim>\<open>buildConfig\<close> sets; it leaves every other
  field at its zero value.\<close>

record tls_Config =
  RootCAs :: x509_CertPool
  ClientCAs :: x509_CertPool
  PreferServerCipherSuites :: bool
  ClientAuth :: tls_ClientAuthType
  MinVersion :: "16 word"
  CipherSuites :: "16 word list"

section \<open>The library functions tls.go calls\<close>

text \<open>
  The file system: the content (or the read error) of every path, and the paths read so
  far, oldest first. \<^verbatim>\<open>ioutil.ReadFile\<close> records the path it reads.
\<close>

record world =
  files :: "string \<Rightarrow> error + bytes"
  readLog :: "string list"

definition ReadFile :: "world \<Rightarrow> string \<Rightarrow> (error + bytes) \<times> world" where
  "ReadFile w filename = (files w filename, w\<lparr>readLog := readLog w @ [filename]\<rparr>)"

text \<open>
  The functions of \<^verbatim>\<open>pkcs12\<close>, \<^verbatim>\<open>pem\<close>, \<^verbatim>\<open>tls\<close> and \<^verbatim>\<open>x509\<close> are parameters of
  the model: tls.go is verified for every behaviour they may have.
  \<^verbatim>\<open>x509.SystemCertPool\<close> loads the platform's certificate files, so it takes the file
  system and returns it with what it has read. \<open>certsFromPEM\<close> is the list of
  certificates that \<^verbatim>\<open>AppendCertsFromPEM\<close> finds in its argument.
\<close>

record libs =
  ToPEM :: "bytes \<Rightarrow> string \<Rightarrow> error + pem_Block list"
  EncodeToMemory :: "pem_Block \<Rightarrow> bytes"
  X509KeyPair :: "bytes \<Rightarrow> bytes \<Rightarrow> error + tls_Certificate"
  ParseCertificate :: "bytes \<Rightarrow> error + x509_Certificate"
  SystemCertPool :: "world \<Rightarrow> (error + x509_CertPool) \<times> world"
  certsFromPEM :: "bytes \<Rightarrow> x509_Certificate list"

definition NewCertPool :: x509_CertPool where
  "NewCertPool = []"

text \<open>\<^verbatim>\<open>AppendCertsFromPEM\<close> appends the certificates found and reports whether
  any was found.\<close>

definition AppendCertsFromPEM :: "libs \<Rightarrow> x509_CertPool \<Rightarrow> bytes \<Rightarrow> x509_CertPool \<times> bool" where
  "AppendCertsFromPEM L s pemCerts = (s @ certsFromPEM L pemCerts, certsFromPEM L pemCerts \<noteq> [])"

section \<open>tls.go\<close>

text \<open>
  The struct \<^verbatim>\<open>certificate\<close>. Its field \<^verbatim>\<open>cached\<close> is an \<^verbatim>\<open>unsafe.Pointer\<close> to a
  \<^verbatim>\<open>tls.Certificate\<close>, or nil; \<open>'p\<close> is what models the pointer. In the functions of this
  section it is the certificate pointed to, \<open>None\<close> for nil. In the interleaving model
  further down it is an address into a heap of certificates.
\<close>

record 'p certificate =
  keystorePath :: string
  keystorePass :: string
  cached :: 'p

text \<open>The loop of \<^verbatim>\<open>reload\<close> that appends the encoding of every block to
  \<^verbatim>\<open>pemBytes\<close>.\<close>

fun encodeBlocks :: "libs \<Rightarrow> pem_Block list \<Rightarrow> bytes \<Rightarrow> bytes" where
  "encodeBlocks L [] pemBytes = pemBytes"
| "encodeBlocks L (block # rest) pemBytes = encodeBlocks L rest (pemBytes @ EncodeToMemory L block)"

text \<open>
  \<^verbatim>\<open>reload\<close>: the returned error, the store and the file system after the call.
  \<^verbatim>\<open>certAndKey.Certificate[0]\<close> panics on an empty chain.
\<close>

definition reload ::
    "libs \<Rightarrow> tls_Certificate option certificate \<Rightarrow> world \<Rightarrow>
     error option outcome \<times> tls_Certificate option certificate \<times> world" where
  "reload L c w =
     (case ReadFile w (keystorePath c) of
        (Inl err, w') \<Rightarrow> (Returns (Some err), c, w')
      | (Inr keystoreBytes, w') \<Rightarrow>
          (case ToPEM L keystoreBytes (keystorePass c) of
             Inl err \<Rightarrow> (Returns (Some err), c, w')
           | Inr pemBlocks \<Rightarrow>
               (let pemBytes = encodeBlocks L pemBlocks [] in
                case X509KeyPair L pemBytes pemBytes of
                  Inl err \<Rightarrow> (Returns (Some err), c, w')
                | Inr certAndKey \<Rightarrow>
                    (case Certificate certAndKey of
                       [] \<Rightarrow> (Panics ''index out of range'', c, w')
                     | der # _ \<Rightarrow>
                         (case ParseCertificate L der of
                            Inl err \<Rightarrow> (Returns (Some err), c, w')
                          | Inr leaf \<Rightarrow>
                              (Returns None,
                               c\<lparr>cached := Some (certAndKey\<lparr>Leaf := Some leaf\<rparr>)\<rparr>,
                               w'))))))"

definition buildCertificate ::
    "libs \<Rightarrow> string \<Rightarrow> string \<Rightarrow> world \<Rightarrow>
     (error + tls_Certificate option certificate) outcome \<times> world" where
  "buildCertificate L path pass w =
     (let cert = \<lparr>keystorePath = path, keystorePass = pass, cached = None\<rparr> in
      case reload L cert w of
        (Panics msg, cert', w') \<Rightarrow> (Panics msg, w')
      | (Returns (Some err), cert', w') \<Rightarrow> (Returns (Inl err), w')
      | (Returns None, cert', w') \<Rightarrow> (Returns (Inr cert'), w'))"

definition getCertificate ::
    "tls_Certificate option certificate \<Rightarrow> tls_ClientHelloInfo option \<Rightarrow>
     tls_Certificate option \<times> error option" where
  "getCertificate c clientHello = (cached c, None)"

definition certBundle :: "libs \<Rightarrow> string \<Rightarrow> world \<Rightarrow> (error + x509_CertPool) \<times> world" where
  "certBundle L caBundlePath w =
     (if caBundlePath = [] then SystemCertPool L w
      else
        (case ReadFile w caBundlePath of
           (Inl err, w') \<Rightarrow> (Inl err, w')
         | (Inr caBundleBytes, w') \<Rightarrow>
             (case AppendCertsFromPEM L NewCertPool caBundleBytes of
                (bundle, ok) \<Rightarrow>
                  if \<not> ok then (Inl (Error ''unable to parse ca-bundle''), w')
                  else (Inr bundle, w'))))"

definition buildConfig :: "libs \<Rightarrow> string \<Rightarrow> world \<Rightarrow> (error + tls_Config) \<times> world" where
  "buildConfig L caBundlePath w =
     (case certBundle L caBundlePath w of
        (Inl err, w') \<Rightarrow> (Inl err, w')
      | (Inr caBundle, w') \<Rightarrow>
          (Inr \<lparr>RootCAs = caBundle,
                ClientCAs = caBundle,
                PreferServerCipherSuites = True,
                ClientAuth = RequireAndVerifyClientCert,
                MinVersion = VersionTLS12,
                CipherSuites =
                  [TLS_ECDHE_RSA_WITH_AES_128_GCM_SHA256,
                   TLS_ECDHE_ECDSA_WITH_AES_128_GCM_SHA256,
                   TLS_ECDHE_RSA_WITH_AES_256_GCM_SHA384,
                   TLS_ECDHE_ECDSA_WITH_AES_256_GCM_SHA384]\<rparr>,
           w'))"

section \<open>tls.go, calls running at the same time\<close>

text \<open>
  Many calls of \<^verbatim>\<open>reload\<close> and \<^verbatim>\<open>getCertificate\<close> on one store run interleaved. A call
  is at a line of tls.go with its local variables; one step runs one call up to its next
  access to shared memory. \<^verbatim>\<open>atomic.LoadPointer\<close> and \<^verbatim>\<open>atomic.StorePointer\<close> are one
  step each. The heap holds the \<^verbatim>\<open>tls.Certificate\<close> values whose address is taken; the
  variable \<^verbatim>\<open>certAndKey\<close> of line 69 is one, new for every call, and the assignment to
  \<^verbatim>\<open>certAndKey.Leaf\<close> of line 74 writes to it in the heap. An address is an index into
  the heap. A frame is the line a call is at, with the local variables that are live
  there: \<open>reload_74 a\<close> is a call of \<^verbatim>\<open>reload\<close> about to run line 74 whose \<^verbatim>\<open>certAndKey\<close>
  is at address \<open>a\<close>.
\<close>

type_synonym addr = nat

datatype frame =
    reload_54
  | reload_59 bytes
  | reload_69 bytes
  | reload_74 addr
  | reload_79 addr
  | reload_returned "error option"
  | reload_panicked string
  | getCertificate_49
  | getCertificate_returned "addr option"

record process =
  disk :: world
  heap :: "tls_Certificate list"
  store :: "addr option certificate"
  calls :: "nat \<Rightarrow> frame"

definition step :: "libs \<Rightarrow> nat \<Rightarrow> process \<Rightarrow> process" where
  "step L i s =
     (case calls s i of
        reload_54 \<Rightarrow>
          (case ReadFile (disk s) (keystorePath (store s)) of
             (Inl err, w') \<Rightarrow> s\<lparr>disk := w', calls := (calls s)(i := reload_returned (Some err))\<rparr>
           | (Inr keystoreBytes, w') \<Rightarrow> s\<lparr>disk := w', calls := (calls s)(i := reload_59 keystoreBytes)\<rparr>)
      | reload_59 keystoreBytes \<Rightarrow>
          (case ToPEM L keystoreBytes (keystorePass (store s)) of
             Inl err \<Rightarrow> s\<lparr>calls := (calls s)(i := reload_returned (Some err))\<rparr>
           | Inr pemBlocks \<Rightarrow> s\<lparr>calls := (calls s)(i := reload_69 (encodeBlocks L pemBlocks []))\<rparr>)
      | reload_69 pemBytes \<Rightarrow>
          (case X509KeyPair L pemBytes pemBytes of
             Inl err \<Rightarrow> s\<lparr>calls := (calls s)(i := reload_returned (Some err))\<rparr>
           | Inr certAndKey \<Rightarrow>
               s\<lparr>heap := heap s @ [certAndKey], calls := (calls s)(i := reload_74 (length (heap s)))\<rparr>)
      | reload_74 a \<Rightarrow>
          (case Certificate (heap s ! a) of
             [] \<Rightarrow> s\<lparr>calls := (calls s)(i := reload_panicked ''index out of range'')\<rparr>
           | der # _ \<Rightarrow>
               (case ParseCertificate L der of
                  Inl err \<Rightarrow>
                    s\<lparr>heap := (heap s)[a := (heap s ! a)\<lparr>Leaf := None\<rparr>],
                      calls := (calls s)(i := reload_returned (Some err))\<rparr>
                | Inr leaf \<Rightarrow>
                    s\<lparr>heap := (heap s)[a := (heap s ! a)\<lparr>Leaf := Some leaf\<rparr>],
                      calls := (calls s)(i := reload_79 a)\<rparr>))
      | reload_79 a \<Rightarrow>
          s\<lparr>store := (store s)\<lparr>cached := Some a\<rparr>, calls := (calls s)(i := reload_returned None)\<rparr>
      | getCertificate_49 \<Rightarrow>
          s\<lparr>calls := (calls s)(i := getCertificate_returned (cached (store s)))\<rparr>
      | _ \<Rightarrow> s)"

text \<open>An event is a step of call \<open>i\<close>, or somebody replacing the files on disk.\<close>

datatype event = Run nat | Replace "string \<Rightarrow> error + bytes"

definition occur :: "libs \<Rightarrow> event \<Rightarrow> process \<Rightarrow> process" where
  "occur L e s = (case e of Run i \<Rightarrow> step L i s | Replace f \<Rightarrow> s\<lparr>disk := (disk s)\<lparr>files := f\<rparr>\<rparr>)"

fun run :: "libs \<Rightarrow> process \<Rightarrow> event list \<Rightarrow> process" where
  "run L s [] = s"
| "run L s (e # es) = run L (occur L e s) es"

text \<open>Before any step: the heap is empty, the slot is nil, and every call is at its
  first line; \<open>reloading i\<close> tells whether call \<open>i\<close> is a \<^verbatim>\<open>reload\<close>.\<close>

definition start :: "world \<Rightarrow> string \<Rightarrow> string \<Rightarrow> (nat \<Rightarrow> bool) \<Rightarrow> process" where
  "start w path pass reloading =
     \<lparr>disk = w, heap = [],
      store = \<lparr>keystorePath = path, keystorePass = pass, cached = None\<rparr>,
      calls = (\<lambda>i. if reloading i then reload_54 else getCertificate_49)\<rparr>"

section \<open>A concrete library and file system\<close>

text \<open>
  One behaviour of the libraries and one file system, on which the theorems below are
  run: the container \<open>server.p12\<close> opens with the passphrase \<open>secret\<close>, \<open>broken.p12\<close> holds
  a chain whose leaf does not parse, \<open>mismatch.p12\<close> a key that is not the leaf's,
  \<open>nokey.p12\<close> no key, and \<open>empty.pem\<close> is an empty file. The system pool is loaded from
  the platform's certificate file.
\<close>

definition exampleLeaf :: x509_Certificate where
  "exampleLeaf = \<lparr>Raw = [1], Subject = ''CN=server.example.com'', PublicKey = [7]\<rparr>"

definition exampleLeaf2 :: x509_Certificate where
  "exampleLeaf2 = \<lparr>Raw = [3], Subject = ''CN=server2.example.com'', PublicKey = [9]\<rparr>"

definition exampleMatches :: "crypto_PrivateKey \<Rightarrow> bytes \<Rightarrow> bool" where
  "exampleMatches key der = (case key of KeyMaterial k \<Rightarrow> k = map (\<lambda>b. b + 6) der)"

definition exampleLibs :: libs where
  "exampleLibs =
     \<lparr>ToPEM = (\<lambda>pfxData password.
        if pfxData = [] then Inl (Error ''pkcs12: error reading P12 data'')
        else if password = ''secret'' then Inr [\<lparr>Type = ''CERTIFICATE'', Headers = [], Bytes = pfxData\<rparr>]
        else Inl (Error ''pkcs12: decryption password incorrect'')),
      EncodeToMemory = Bytes,
      X509KeyPair = (\<lambda>certPEMBlock keyPEMBlock.
        if length certPEMBlock < 2 \<or> length keyPEMBlock < 2
        then Inl (Error ''tls: failed to find any PEM data in key input'')
        else if \<not> exampleMatches (KeyMaterial [last keyPEMBlock]) (butlast certPEMBlock)
        then Inl (Error ''tls: private key does not match public key'')
        else Inr \<lparr>Certificate = [butlast certPEMBlock],
                  PrivateKey = KeyMaterial [last keyPEMBlock],
                  Leaf = None\<rparr>),
      ParseCertificate = (\<lambda>asn1Data.
        if asn1Data = [1] then Inr exampleLeaf
        else if asn1Data = [3] then Inr exampleLeaf2
        else Inl (Error ''x509: malformed certificate'')),
      SystemCertPool = (\<lambda>w.
        case ReadFile w ''/etc/ssl/certs/ca-certificates.crt'' of
          (Inl err, w') \<Rightarrow> (Inl err, w')
        | (Inr data, w') \<Rightarrow> (Inr [exampleLeaf], w')),
      certsFromPEM = (\<lambda>pemCerts. if pemCerts = [] then [] else [exampleLeaf])\<rparr>"

definition exampleWorld :: world where
  "exampleWorld =
     \<lparr>files = (\<lambda>filename.
        if filename = ''server.p12'' then Inr [1, 7]
        else if filename = ''nokey.p12'' then Inr [1]
        else if filename = ''broken.p12'' then Inr [2, 8]
        else if filename = ''mismatch.p12'' then Inr [1, 9]
        else if filename = ''ca.pem'' then Inr [1]
        else if filename = ''/etc/ssl/certs/ca-certificates.crt'' then Inr [1]
        else if filename = ''empty.pem'' then Inr []
        else if filename = ''empty.p12'' then Inr []
        else Inl (Error ''no such file or directory'')),
      readLog = []\<rparr>"

definition exampleBundle2 :: tls_Certificate where
  "exampleBundle2 = \<lparr>Certificate = [[3]], PrivateKey = KeyMaterial [9], Leaf = Some exampleLeaf2\<rparr>"

definition exampleBundle :: tls_Certificate where
  "exampleBundle = \<lparr>Certificate = [[1]], PrivateKey = KeyMaterial [7], Leaf = Some exampleLeaf\<rparr>"

definition neverLoaded :: "tls_Certificate option certificate" where
  "neverLoaded = \<lparr>keystorePath = ''server.p12'', keystorePass = ''secret'', cached = None\<rparr>"

definition served :: "tls_Certificate option certificate" where
  "served = \<lparr>keystorePath = ''server.p12'', keystorePass = ''secret'', cached = Some exampleBundle\<rparr>"

definition replacedWorld :: world where
  "replacedWorld = exampleWorld\<lparr>files := (files exampleWorld)(''server.p12'' := Inr [2, 8])\<rparr>"

definition server2 :: "string \<Rightarrow> error + bytes" where
  "server2 = (files exampleWorld)(''server.p12'' := Inr [3, 9])"

text \<open>
  Calls 0 and 2 reload, calls 1 and 3 get the certificate. Call 0 runs to its end, the
  container is replaced, call 2 runs up to line 79, call 1 loads the pointer; then call 2
  stores its pointer and call 3 loads it.
\<close>

definition exampleStart :: process where
  "exampleStart = start exampleWorld ''server.p12'' ''secret'' (\<lambda>i. i = 0 \<or> i = 2)"

definition exampleBefore :: "event list" where
  "exampleBefore =
     [Run 0, Run 0, Run 0, Run 0, Run 0, Replace server2, Run 2, Run 2, Run 2, Run 2, Run 1]"

definition exampleAfter :: "event list" where
  "exampleAfter = [Run 2, Run 3]"

section \<open>Notions the properties are stated with\<close>

text \<open>
  The store after a sequence of \<^verbatim>\<open>reload\<close> calls, one for each state of the file
  system in the list, whatever each call returns.
\<close>

fun reloads ::
    "libs \<Rightarrow> tls_Certificate option certificate \<Rightarrow> world list \<Rightarrow>
     tls_Certificate option certificate" where
  "reloads L c [] = c"
| "reloads L c (w # ws) = reloads L (fst (snd (reload L c w))) ws"

text \<open>
  What \<^verbatim>\<open>tls.X509KeyPair\<close> promises: a pair it returns without error has a chain with a first
  certificate, and its private key matches that certificate. \<open>matches\<close> is the relation
  between a private key and the DER encoding of a certificate with the corresponding public
  key.
\<close>

definition X509KeyPair_verifies :: "libs \<Rightarrow> (crypto_PrivateKey \<Rightarrow> bytes \<Rightarrow> bool) \<Rightarrow> bool" where
  "X509KeyPair_verifies L matches \<longleftrightarrow>
     (\<forall>certPEMBlock keyPEMBlock certAndKey.
        X509KeyPair L certPEMBlock keyPEMBlock = Inr certAndKey \<longrightarrow>
        (\<exists>der ders. Certificate certAndKey = der # ders \<and> matches (PrivateKey certAndKey) der))"

text \<open>
  What the steps keep true. \<open>decoded\<close>: the bytes are the encoding of the blocks of some
  container; \<open>paired\<close>: the certificate is what \<^verbatim>\<open>tls.X509KeyPair\<close> returned for such
  bytes; \<open>generation\<close>: the certificate is such a pair with the parsed first certificate
  of its own chain as \<^verbatim>\<open>Leaf\<close>, that is, what one call of \<^verbatim>\<open>reload\<close> builds in
  lines 59 to 74. \<open>frozen\<close>: the address is allocated and no call is at line 74 with it.
\<close>

definition decoded :: "libs \<Rightarrow> string \<Rightarrow> bytes \<Rightarrow> bool" where
  "decoded L pass pemBytes \<longleftrightarrow>
     (\<exists>keystoreBytes pemBlocks.
        ToPEM L keystoreBytes pass = Inr pemBlocks \<and> pemBytes = encodeBlocks L pemBlocks [])"

definition paired :: "libs \<Rightarrow> string \<Rightarrow> tls_Certificate \<Rightarrow> bool" where
  "paired L pass certAndKey \<longleftrightarrow>
     (\<exists>pemBytes. decoded L pass pemBytes \<and> X509KeyPair L pemBytes pemBytes = Inr certAndKey)"

definition generation :: "libs \<Rightarrow> string \<Rightarrow> tls_Certificate \<Rightarrow> bool" where
  "generation L pass b \<longleftrightarrow>
     (\<exists>certAndKey der ders leaf.
        paired L pass certAndKey \<and> Certificate certAndKey = der # ders \<and>
        ParseCertificate L der = Inr leaf \<and> b = certAndKey\<lparr>Leaf := Some leaf\<rparr>)"

definition frozen :: "process \<Rightarrow> addr \<Rightarrow> bool" where
  "frozen s p \<longleftrightarrow> p < length (heap s) \<and> (\<forall>j. calls s j \<noteq> reload_74 p)"

definition consistent :: "libs \<Rightarrow> process \<Rightarrow> bool" where
  "consistent L s \<longleftrightarrow>
     (\<forall>i j a. calls s i = reload_74 a \<and> calls s j = reload_74 a \<longrightarrow> i = j) \<and>
     (\<forall>i a. calls s i = reload_74 a \<longrightarrow>
        a < length (heap s) \<and> paired L (keystorePass (store s)) (heap s ! a)) \<and>
     (\<forall>i a. calls s i = reload_79 a \<longrightarrow>
        frozen s a \<and> generation L (keystorePass (store s)) (heap s ! a)) \<and>
     (\<forall>i p. calls s i = getCertificate_returned (Some p) \<longrightarrow>
        frozen s p \<and> generation L (keystorePass (store s)) (heap s ! p)) \<and>
     (\<forall>p. cached (store s) = Some p \<longrightarrow>
        frozen s p \<and> generation L (keystorePass (store s)) (heap s ! p)) \<and>
     (\<forall>i pemBytes. calls s i = reload_69 pemBytes \<longrightarrow> decoded L (keystorePass (store s)) pemBytes)"

text \<open>The store of the sequential functions that a state of the interleaved calls
  stands for: the slot holds the certificate at the address.\<close>

definition view :: "process \<Rightarrow> tls_Certificate option certificate" where
  "view s =
     \<lparr>keystorePath = keystorePath (store s), keystorePass = keystorePass (store s),
      cached = map_option (\<lambda>p. heap s ! p) (cached (store s))\<rparr>"

section \<open>The certificate callback\<close>

text \<open>
  C9. For every \<^verbatim>\<open>ClientHelloInfo\<close> and every store, \<^verbatim>\<open>getCertificate\<close> returns a nil
  error; on a store whose slot was never set it returns a nil certificate together with
  a nil error.
\<close>

theorem getCertificate_nil_error:
  "snd (getCertificate c clientHello) = None \<and>
   (cached c = None \<longrightarrow> getCertificate c clientHello = (None, None))"
  by (simp add: getCertificate_def)

theorem getCertificate_nil_error_witness:
  "cached neverLoaded = None \<and> getCertificate neverLoaded None = (None, None)"
  using getCertificate_nil_error [of neverLoaded None]
  by (simp add: neverLoaded_def)

text \<open>
  C3, as the specification states it: on a store whose slot is unset,
  \<^verbatim>\<open>getCertificate\<close> returns an error. The never-loaded store refutes it: the slot is
  unset and the returned error is nil.
\<close>

theorem getCertificate_unset_counterexample:
  "\<not> (cached neverLoaded = None \<longrightarrow> snd (getCertificate neverLoaded None) \<noteq> None)"
  by (simp add: neverLoaded_def getCertificate_def)

text \<open>
  C3, amended: on a store whose slot is unset, \<^verbatim>\<open>getCertificate\<close> returns the nil
  certificate and the nil error; no error value is produced.
\<close>

theorem getCertificate_unset:
  "cached c = None \<Longrightarrow> getCertificate c clientHello = (None, None)"
  by (simp add: getCertificate_def)

theorem getCertificate_unset_witness:
  "cached neverLoaded = None \<and>
   getCertificate neverLoaded (Some \<lparr>ServerName = ''server.example.com''\<rparr>) = (None, None)"
proof -
  have unset: "cached neverLoaded = None"
    by (simp add: neverLoaded_def)
  from getCertificate_unset [OF unset] unset show ?thesis
    by simp
qed

section \<open>The TLS configuration\<close>

lemma buildConfig_Inr:
  assumes "buildConfig L caBundlePath w = (Inr cfg, w')"
  shows "\<exists>caBundle. certBundle L caBundlePath w = (Inr caBundle, w') \<and>
           cfg = \<lparr>RootCAs = caBundle, ClientCAs = caBundle, PreferServerCipherSuites = True,
                  ClientAuth = RequireAndVerifyClientCert, MinVersion = VersionTLS12,
                  CipherSuites =
                    [TLS_ECDHE_RSA_WITH_AES_128_GCM_SHA256,
                     TLS_ECDHE_ECDSA_WITH_AES_128_GCM_SHA256,
                     TLS_ECDHE_RSA_WITH_AES_256_GCM_SHA384,
                     TLS_ECDHE_ECDSA_WITH_AES_256_GCM_SHA384]\<rparr>"
  using assms unfolding buildConfig_def
  by (auto split: prod.splits sum.splits)

lemma exampleLibs_certBundle_ca:
  "certBundle exampleLibs ''ca.pem'' exampleWorld =
     (Inr [exampleLeaf], exampleWorld\<lparr>readLog := [''ca.pem'']\<rparr>)"
  by (simp add: certBundle_def ReadFile_def AppendCertsFromPEM_def NewCertPool_def
      exampleLibs_def exampleWorld_def)

text \<open>
  C4. Whenever \<^verbatim>\<open>buildConfig\<close> succeeds, whatever the trust bundle, the configuration
  requires and verifies client certificates, has TLS 1.2 (0x0303) as its minimum version,
  above SSL 3.0, TLS 1.0 and TLS 1.1, prefers the server's cipher order, and allows
  exactly the four suites
  ECDHE-RSA-AES128-GCM (0xc02f), ECDHE-ECDSA-AES128-GCM (0xc02b), ECDHE-RSA-AES256-GCM
  (0xc030) and ECDHE-ECDSA-AES256-GCM (0xc02c), each once.
\<close>

theorem buildConfig_policy:
  assumes "buildConfig L caBundlePath w = (Inr cfg, w')"
  shows "ClientAuth cfg = RequireAndVerifyClientCert \<and>
         MinVersion cfg = VersionTLS12 \<and> MinVersion cfg = 0x0303 \<and>
         VersionSSL30 < MinVersion cfg \<and> VersionTLS10 < MinVersion cfg \<and>
         VersionTLS11 < MinVersion cfg \<and>
         PreferServerCipherSuites cfg \<and>
         CipherSuites cfg =
           [TLS_ECDHE_RSA_WITH_AES_128_GCM_SHA256, TLS_ECDHE_ECDSA_WITH_AES_128_GCM_SHA256,
            TLS_ECDHE_RSA_WITH_AES_256_GCM_SHA384, TLS_ECDHE_ECDSA_WITH_AES_256_GCM_SHA384] \<and>
         set (CipherSuites cfg) = {0xc02f, 0xc02b, 0xc030, 0xc02c} \<and>
         distinct (CipherSuites cfg) \<and> length (CipherSuites cfg) = 4"
proof -
  from buildConfig_Inr [OF assms] obtain caBundle where
    cfg: "cfg = \<lparr>RootCAs = caBundle, ClientCAs = caBundle, PreferServerCipherSuites = True,
                  ClientAuth = RequireAndVerifyClientCert, MinVersion = VersionTLS12,
                  CipherSuites =
                    [TLS_ECDHE_RSA_WITH_AES_128_GCM_SHA256,
                     TLS_ECDHE_ECDSA_WITH_AES_128_GCM_SHA256,
                     TLS_ECDHE_RSA_WITH_AES_256_GCM_SHA384,
                     TLS_ECDHE_ECDSA_WITH_AES_256_GCM_SHA384]\<rparr>"
    by blast
  show ?thesis
    unfolding cfg
    by (simp add: VersionTLS12_def VersionTLS11_def VersionTLS10_def VersionSSL30_def
        TLS_ECDHE_RSA_WITH_AES_128_GCM_SHA256_def
        TLS_ECDHE_ECDSA_WITH_AES_128_GCM_SHA256_def TLS_ECDHE_RSA_WITH_AES_256_GCM_SHA384_def
        TLS_ECDHE_ECDSA_WITH_AES_256_GCM_SHA384_def)
qed

theorem buildConfig_policy_witness:
  "\<exists>cfg w'. buildConfig exampleLibs ''ca.pem'' exampleWorld = (Inr cfg, w') \<and>
     ClientAuth cfg = RequireAndVerifyClientCert \<and> MinVersion cfg = 0x0303 \<and>
     PreferServerCipherSuites cfg \<and>
     set (CipherSuites cfg) = {0xc02f, 0xc02b, 0xc030, 0xc02c} \<and>
     length (CipherSuites cfg) = 4"
proof -
  obtain cfg w' where run: "buildConfig exampleLibs ''ca.pem'' exampleWorld = (Inr cfg, w')"
    by (simp add: buildConfig_def exampleLibs_certBundle_ca)
  from buildConfig_policy [OF run] run show ?thesis
    by blast
qed

section \<open>The trust bundle\<close>

text \<open>
  C5, as the specification states it: for the empty path, \<^verbatim>\<open>certBundle\<close> returns the
  platform's default trust store without reading any file. With a system pool that is
  loaded from the platform's certificate file it does not hold: \<^verbatim>\<open>certBundle\<close> returns
  the pool, and that file has been read.
\<close>

theorem certBundle_default_pool_counterexample:
  "fst (certBundle exampleLibs [] exampleWorld) = Inr [exampleLeaf] \<and>
   readLog (snd (certBundle exampleLibs [] exampleWorld)) \<noteq> readLog exampleWorld"
  by (simp add: certBundle_def ReadFile_def exampleLibs_def exampleWorld_def)

text \<open>
  C5, amended. For the empty path, \<^verbatim>\<open>certBundle\<close> does what the platform's
  \<^verbatim>\<open>SystemCertPool\<close> does and nothing else: it returns its result, its error included,
  it fails exactly when \<^verbatim>\<open>SystemCertPool\<close> fails, and the files read are those that
  \<^verbatim>\<open>SystemCertPool\<close> reads, \<^verbatim>\<open>certBundle\<close> reading none of its own. Whenever
  \<^verbatim>\<open>buildConfig\<close> succeeds, the bundle that \<^verbatim>\<open>certBundle\<close> returned is both the
  \<^verbatim>\<open>RootCAs\<close> and the \<^verbatim>\<open>ClientCAs\<close> of the configuration.
\<close>

theorem certBundle_default_pool:
  "fst (certBundle L [] w) = fst (SystemCertPool L w) \<and>
   snd (certBundle L [] w) = snd (SystemCertPool L w) \<and>
   readLog (snd (certBundle L [] w)) = readLog (snd (SystemCertPool L w)) \<and>
   ((\<exists>err. fst (certBundle L [] w) = Inl err) \<longleftrightarrow> (\<exists>err. fst (SystemCertPool L w) = Inl err)) \<and>
   (\<forall>cfg w'. buildConfig L caBundlePath w = (Inr cfg, w') \<longrightarrow>
      (\<exists>caBundle. certBundle L caBundlePath w = (Inr caBundle, w') \<and>
         RootCAs cfg = caBundle \<and> ClientCAs cfg = caBundle))"
proof -
  have default: "certBundle L [] w = SystemCertPool L w"
    by (simp add: certBundle_def)
  have roots: "\<exists>caBundle. certBundle L caBundlePath w = (Inr caBundle, w') \<and>
      RootCAs cfg = caBundle \<and> ClientCAs cfg = caBundle"
    if "buildConfig L caBundlePath w = (Inr cfg, w')" for cfg w'
    using buildConfig_Inr [OF that] by auto
  from default roots show ?thesis
    by simp
qed

theorem certBundle_default_pool_witness:
  "certBundle exampleLibs [] exampleWorld =
     (Inr [exampleLeaf], exampleWorld\<lparr>readLog := [''/etc/ssl/certs/ca-certificates.crt'']\<rparr>) \<and>
   (\<exists>cfg w'. buildConfig exampleLibs [] exampleWorld = (Inr cfg, w') \<and>
      RootCAs cfg = [exampleLeaf] \<and> ClientCAs cfg = [exampleLeaf])"
proof -
  have pool: "SystemCertPool exampleLibs exampleWorld =
      (Inr [exampleLeaf], exampleWorld\<lparr>readLog := [''/etc/ssl/certs/ca-certificates.crt'']\<rparr>)"
    by (simp add: exampleLibs_def exampleWorld_def ReadFile_def)
  have default: "certBundle exampleLibs [] exampleWorld =
      (Inr [exampleLeaf], exampleWorld\<lparr>readLog := [''/etc/ssl/certs/ca-certificates.crt'']\<rparr>)"
    using certBundle_default_pool [of exampleLibs exampleWorld "[]"] pool
    by (simp add: prod_eq_iff)
  obtain cfg w' where run: "buildConfig exampleLibs [] exampleWorld = (Inr cfg, w')"
    by (simp add: buildConfig_def default)
  from certBundle_default_pool [of exampleLibs exampleWorld "[]"] run default
  have "RootCAs cfg = [exampleLeaf] \<and> ClientCAs cfg = [exampleLeaf]"
    by auto
  with default run show ?thesis
    by blast
qed

text \<open>
  C6. For every non-empty path, \<^verbatim>\<open>certBundle\<close> reads that file once; when the read
  fails it returns the read's error; when no certificate is found in the bytes read it
  returns the error "unable to parse ca-bundle"; and a bundle it returns holds the
  certificates found in the bytes read, at least one.
\<close>

theorem certBundle_file:
  assumes "caBundlePath \<noteq> []"
  shows "readLog (snd (certBundle L caBundlePath w)) = readLog w @ [caBundlePath] \<and>
         (\<forall>err. files w caBundlePath = Inl err \<longrightarrow> fst (certBundle L caBundlePath w) = Inl err) \<and>
         (\<forall>caBundleBytes. files w caBundlePath = Inr caBundleBytes \<and>
              certsFromPEM L caBundleBytes = [] \<longrightarrow>
            fst (certBundle L caBundlePath w) = Inl (Error ''unable to parse ca-bundle'')) \<and>
         (\<forall>bundle. fst (certBundle L caBundlePath w) = Inr bundle \<longrightarrow>
            (\<exists>caBundleBytes. files w caBundlePath = Inr caBundleBytes \<and>
               bundle = certsFromPEM L caBundleBytes \<and> bundle \<noteq> []))"
  using assms
  by (cases "files w caBundlePath")
    (simp_all add: certBundle_def ReadFile_def AppendCertsFromPEM_def NewCertPool_def)

theorem certBundle_file_witness:
  "fst (certBundle exampleLibs ''missing.pem'' exampleWorld) = Inl (Error ''no such file or directory'') \<and>
   fst (certBundle exampleLibs ''empty.pem'' exampleWorld) = Inl (Error ''unable to parse ca-bundle'') \<and>
   fst (certBundle exampleLibs ''ca.pem'' exampleWorld) = Inr [exampleLeaf] \<and>
   readLog (snd (certBundle exampleLibs ''ca.pem'' exampleWorld)) = [''ca.pem'']"
proof -
  have missing: "files exampleWorld ''missing.pem'' = Inl (Error ''no such file or directory'')"
    by (simp add: exampleWorld_def)
  have empty: "files exampleWorld ''empty.pem'' = Inr [] \<and> certsFromPEM exampleLibs [] = []"
    by (simp add: exampleWorld_def exampleLibs_def)
  have ca: "files exampleWorld ''ca.pem'' = Inr [1] \<and> certsFromPEM exampleLibs [1] = [exampleLeaf]"
    by (simp add: exampleWorld_def exampleLibs_def)
  have log: "readLog exampleWorld = []"
    by (simp add: exampleWorld_def)
  have 1: "fst (certBundle exampleLibs ''missing.pem'' exampleWorld) = Inl (Error ''no such file or directory'')"
    using certBundle_file [of "''missing.pem''" exampleLibs exampleWorld] missing by simp
  have 2: "fst (certBundle exampleLibs ''empty.pem'' exampleWorld) = Inl (Error ''unable to parse ca-bundle'')"
    using certBundle_file [of "''empty.pem''" exampleLibs exampleWorld] empty by simp
  have 3: "readLog (snd (certBundle exampleLibs ''ca.pem'' exampleWorld)) = [''ca.pem'']"
    using certBundle_file [of "''ca.pem''" exampleLibs exampleWorld] log by simp
  have 4: "fst (certBundle exampleLibs ''ca.pem'' exampleWorld) = Inr [exampleLeaf]"
    by (simp add: exampleLibs_certBundle_ca)
  from 1 2 3 4 show ?thesis
    by simp
qed

section \<open>Reloading\<close>

lemma reload_world:
  "snd (snd (reload L c w)) = w\<lparr>readLog := readLog w @ [keystorePath c]\<rparr>"
  unfolding reload_def ReadFile_def Let_def
  by (simp split: sum.splits list.splits)

lemma reload_read_fails:
  assumes "files w (keystorePath c) = Inl err"
  shows "fst (reload L c w) = Returns (Some err)" and "fst (snd (reload L c w)) = c"
  using assms unfolding reload_def ReadFile_def
  by simp_all

lemma reload_ToPEM_fails:
  assumes "files w (keystorePath c) = Inr keystoreBytes"
    and "ToPEM L keystoreBytes (keystorePass c) = Inl err"
  shows "fst (reload L c w) = Returns (Some err)" and "fst (snd (reload L c w)) = c"
  using assms unfolding reload_def ReadFile_def
  by simp_all

lemma reload_X509KeyPair_fails:
  assumes "files w (keystorePath c) = Inr keystoreBytes"
    and "ToPEM L keystoreBytes (keystorePass c) = Inr pemBlocks"
    and "X509KeyPair L (encodeBlocks L pemBlocks []) (encodeBlocks L pemBlocks []) = Inl err"
  shows "fst (reload L c w) = Returns (Some err)" and "fst (snd (reload L c w)) = c"
  using assms unfolding reload_def ReadFile_def
  by simp_all

lemma reload_ParseCertificate_fails:
  assumes "files w (keystorePath c) = Inr keystoreBytes"
    and "ToPEM L keystoreBytes (keystorePass c) = Inr pemBlocks"
    and "X509KeyPair L (encodeBlocks L pemBlocks []) (encodeBlocks L pemBlocks []) = Inr certAndKey"
    and "Certificate certAndKey = der # ders"
    and "ParseCertificate L der = Inl err"
  shows "fst (reload L c w) = Returns (Some err)" and "fst (snd (reload L c w)) = c"
  using assms unfolding reload_def ReadFile_def
  by simp_all

lemma reload_unchanged:
  assumes "fst (reload L c w) \<noteq> Returns None"
  shows "fst (snd (reload L c w)) = c"
  using assms unfolding reload_def ReadFile_def Let_def
  by (simp split: sum.splits list.splits)

lemma reload_succeeds:
  assumes "fst (reload L c w) = Returns None"
  shows "\<exists>keystoreBytes pemBlocks certAndKey der ders leaf.
           files w (keystorePath c) = Inr keystoreBytes \<and>
           ToPEM L keystoreBytes (keystorePass c) = Inr pemBlocks \<and>
           X509KeyPair L (encodeBlocks L pemBlocks []) (encodeBlocks L pemBlocks []) = Inr certAndKey \<and>
           Certificate certAndKey = der # ders \<and>
           ParseCertificate L der = Inr leaf \<and>
           fst (snd (reload L c w)) = c\<lparr>cached := Some (certAndKey\<lparr>Leaf := Some leaf\<rparr>)\<rparr>"
proof (cases "files w (keystorePath c)")
  case (Inl err)
  with assms show ?thesis
    by (simp add: reload_def ReadFile_def)
next
  case read: (Inr keystoreBytes)
  show ?thesis
  proof (cases "ToPEM L keystoreBytes (keystorePass c)")
    case (Inl err)
    with assms read show ?thesis
      by (simp add: reload_def ReadFile_def)
  next
    case pem: (Inr pemBlocks)
    show ?thesis
    proof (cases "X509KeyPair L (encodeBlocks L pemBlocks []) (encodeBlocks L pemBlocks [])")
      case (Inl err)
      with assms read pem show ?thesis
        by (simp add: reload_def ReadFile_def)
    next
      case pair: (Inr certAndKey)
      show ?thesis
      proof (cases "Certificate certAndKey")
        case Nil
        with assms read pem pair show ?thesis
          by (simp add: reload_def ReadFile_def)
      next
        case chain: (Cons der ders)
        show ?thesis
        proof (cases "ParseCertificate L der")
          case (Inl err)
          with assms read pem pair chain show ?thesis
            by (simp add: reload_def ReadFile_def)
        next
          case (Inr leaf)
          with read pem pair chain show ?thesis
            by (simp add: reload_def ReadFile_def)
        qed
      qed
    qed
  qed
qed

text \<open>
  C1. Let the store hold a published bundle. When \<^verbatim>\<open>reload\<close> does not return nil, the
  store is exactly as before, and \<^verbatim>\<open>getCertificate\<close> afterwards returns the bundle that
  was published before the call. When the file read, the container decoding, the key-pair
  parse or the leaf parse fails, \<^verbatim>\<open>reload\<close> returns the error of that stage.
\<close>

theorem reload_failure_keeps_current:
  assumes "cached c = Some b"
    and "reload L c w = (r, c', w')"
  shows "(r \<noteq> Returns None \<longrightarrow>
            c' = c \<and> cached c' = Some b \<and> getCertificate c' clientHello = (Some b, None)) \<and>
         (\<forall>err. files w (keystorePath c) = Inl err \<longrightarrow> r = Returns (Some err)) \<and>
         (\<forall>keystoreBytes err.
            files w (keystorePath c) = Inr keystoreBytes \<and>
            ToPEM L keystoreBytes (keystorePass c) = Inl err \<longrightarrow> r = Returns (Some err)) \<and>
         (\<forall>keystoreBytes pemBlocks err.
            files w (keystorePath c) = Inr keystoreBytes \<and>
            ToPEM L keystoreBytes (keystorePass c) = Inr pemBlocks \<and>
            X509KeyPair L (encodeBlocks L pemBlocks []) (encodeBlocks L pemBlocks []) = Inl err \<longrightarrow>
            r = Returns (Some err)) \<and>
         (\<forall>keystoreBytes pemBlocks certAndKey der ders err.
            files w (keystorePath c) = Inr keystoreBytes \<and>
            ToPEM L keystoreBytes (keystorePass c) = Inr pemBlocks \<and>
            X509KeyPair L (encodeBlocks L pemBlocks []) (encodeBlocks L pemBlocks []) = Inr certAndKey \<and>
            Certificate certAndKey = der # ders \<and>
            ParseCertificate L der = Inl err \<longrightarrow> r = Returns (Some err))"
proof -
  have r: "r = fst (reload L c w)" and c': "c' = fst (snd (reload L c w))"
    using assms(2) by simp_all
  have kept: "c' = c \<and> cached c' = Some b \<and> getCertificate c' clientHello = (Some b, None)"
    if "r \<noteq> Returns None"
    using reload_unchanged [of L c w] that assms(1) r c'
    by (simp add: getCertificate_def)
  show ?thesis
    using kept reload_read_fails(1) [of w c _ L] reload_ToPEM_fails(1) [of w c _ L]
      reload_X509KeyPair_fails(1) [of w c _ L] reload_ParseCertificate_fails(1) [of w c _ L]
    unfolding r
    by blast
qed

lemma example_reload_wrong_passphrase:
  "reload exampleLibs (served\<lparr>keystorePass := ''wrong''\<rparr>) exampleWorld =
     (Returns (Some (Error ''pkcs12: decryption password incorrect'')),
      served\<lparr>keystorePass := ''wrong''\<rparr>, exampleWorld\<lparr>readLog := [''server.p12'']\<rparr>)"
  by (simp add: reload_def ReadFile_def exampleLibs_def exampleWorld_def served_def
      exampleMatches_def)

lemma example_reload_missing:
  "reload exampleLibs (served\<lparr>keystorePath := ''gone.p12''\<rparr>) exampleWorld =
     (Returns (Some (Error ''no such file or directory'')),
      served\<lparr>keystorePath := ''gone.p12''\<rparr>, exampleWorld\<lparr>readLog := [''gone.p12'']\<rparr>)"
  by (simp add: reload_def ReadFile_def exampleLibs_def exampleWorld_def served_def
      exampleMatches_def)

lemma example_reload_nokey:
  "reload exampleLibs (served\<lparr>keystorePath := ''nokey.p12''\<rparr>) exampleWorld =
     (Returns (Some (Error ''tls: failed to find any PEM data in key input'')),
      served\<lparr>keystorePath := ''nokey.p12''\<rparr>, exampleWorld\<lparr>readLog := [''nokey.p12'']\<rparr>)"
  by (simp add: reload_def ReadFile_def exampleLibs_def exampleWorld_def served_def
      exampleMatches_def)

lemma example_reload_broken:
  "reload exampleLibs (served\<lparr>keystorePath := ''broken.p12''\<rparr>) exampleWorld =
     (Returns (Some (Error ''x509: malformed certificate'')),
      served\<lparr>keystorePath := ''broken.p12''\<rparr>, exampleWorld\<lparr>readLog := [''broken.p12'']\<rparr>)"
  by (simp add: reload_def ReadFile_def exampleLibs_def exampleWorld_def served_def
      exampleMatches_def)

lemma example_reload_ok:
  "reload exampleLibs neverLoaded exampleWorld =
     (Returns None, served, exampleWorld\<lparr>readLog := [''server.p12'']\<rparr>)"
  by (simp add: reload_def ReadFile_def exampleLibs_def exampleWorld_def served_def
      neverLoaded_def exampleBundle_def exampleMatches_def)

theorem reload_failure_keeps_current_witness:
  "cached (served\<lparr>keystorePass := ''wrong''\<rparr>) = Some exampleBundle \<and>
   fst (reload exampleLibs (served\<lparr>keystorePass := ''wrong''\<rparr>) exampleWorld) =
     Returns (Some (Error ''pkcs12: decryption password incorrect'')) \<and>
   getCertificate (fst (snd (reload exampleLibs (served\<lparr>keystorePass := ''wrong''\<rparr>) exampleWorld))) None =
     (Some exampleBundle, None) \<and>
   cached (served\<lparr>keystorePath := ''broken.p12''\<rparr>) = Some exampleBundle \<and>
   fst (reload exampleLibs (served\<lparr>keystorePath := ''broken.p12''\<rparr>) exampleWorld) =
     Returns (Some (Error ''x509: malformed certificate'')) \<and>
   getCertificate (fst (snd (reload exampleLibs (served\<lparr>keystorePath := ''broken.p12''\<rparr>) exampleWorld))) None =
     (Some exampleBundle, None)"
proof -
  have published: "cached (served\<lparr>keystorePass := ''wrong''\<rparr>) = Some exampleBundle"
    "cached (served\<lparr>keystorePath := ''broken.p12''\<rparr>) = Some exampleBundle"
    by (simp_all add: served_def)
  have failed: "Returns (Some (Error ''pkcs12: decryption password incorrect'')) \<noteq> Returns None"
    "Returns (Some (Error ''x509: malformed certificate'')) \<noteq> Returns None"
    by simp_all
  from reload_failure_keeps_current [OF published(1) example_reload_wrong_passphrase, of None] failed(1)
  have wrong: "getCertificate (served\<lparr>keystorePass := ''wrong''\<rparr>) None = (Some exampleBundle, None)"
    by blast
  from reload_failure_keeps_current [OF published(2) example_reload_broken, of None] failed(2)
  have broken: "getCertificate (served\<lparr>keystorePath := ''broken.p12''\<rparr>) None = (Some exampleBundle, None)"
    by blast
  from published wrong broken show ?thesis
    by (simp add: example_reload_wrong_passphrase example_reload_broken)
qed

section \<open>Building the store\<close>

lemma buildCertificate_reload:
  "buildCertificate L path pass w =
     (case fst (reload L \<lparr>keystorePath = path, keystorePass = pass, cached = None\<rparr> w) of
        Panics msg \<Rightarrow> Panics msg
      | Returns None \<Rightarrow>
          Returns (Inr (fst (snd (reload L \<lparr>keystorePath = path, keystorePass = pass, cached = None\<rparr> w))))
      | Returns (Some err) \<Rightarrow> Returns (Inl err),
      snd (snd (reload L \<lparr>keystorePath = path, keystorePass = pass, cached = None\<rparr> w)))"
  unfolding buildCertificate_def Let_def
  by (simp split: prod.splits outcome.splits option.splits)

lemma buildCertificate_Inr:
  assumes "fst (buildCertificate L path pass w) = Returns (Inr cert)"
  shows "fst (reload L \<lparr>keystorePath = path, keystorePass = pass, cached = None\<rparr> w) = Returns None"
    and "cert = fst (snd (reload L \<lparr>keystorePath = path, keystorePass = pass, cached = None\<rparr> w))"
  using assms unfolding buildCertificate_reload
  by (simp_all split: outcome.splits option.splits)

lemma buildCertificate_Inl:
  assumes "fst (buildCertificate L path pass w) = Returns (Inl err)"
  shows "fst (reload L \<lparr>keystorePath = path, keystorePass = pass, cached = None\<rparr> w) = Returns (Some err)"
  using assms unfolding buildCertificate_reload
  by (simp split: outcome.splits option.splits)

text \<open>
  C7. \<^verbatim>\<open>buildCertificate\<close> loads once: it reads the keystore file once. When the file
  read, the container decoding, the key-pair parse or the leaf parse fails, it returns
  that error and no store. When it returns an error, the \<^verbatim>\<open>reload\<close> of the new store
  returned that error and left the slot of that store unset. When every stage succeeds it
  returns a store with the given path and passphrase whose slot holds the decoded bundle,
  and every store it returns is of that kind.
\<close>

theorem buildCertificate_all_or_nothing:
  "readLog (snd (buildCertificate L path pass w)) = readLog w @ [path] \<and>
   (\<forall>err. files w path = Inl err \<longrightarrow> fst (buildCertificate L path pass w) = Returns (Inl err)) \<and>
   (\<forall>keystoreBytes err.
      files w path = Inr keystoreBytes \<and> ToPEM L keystoreBytes pass = Inl err \<longrightarrow>
      fst (buildCertificate L path pass w) = Returns (Inl err)) \<and>
   (\<forall>keystoreBytes pemBlocks err.
      files w path = Inr keystoreBytes \<and> ToPEM L keystoreBytes pass = Inr pemBlocks \<and>
      X509KeyPair L (encodeBlocks L pemBlocks []) (encodeBlocks L pemBlocks []) = Inl err \<longrightarrow>
      fst (buildCertificate L path pass w) = Returns (Inl err)) \<and>
   (\<forall>keystoreBytes pemBlocks certAndKey der ders err.
      files w path = Inr keystoreBytes \<and> ToPEM L keystoreBytes pass = Inr pemBlocks \<and>
      X509KeyPair L (encodeBlocks L pemBlocks []) (encodeBlocks L pemBlocks []) = Inr certAndKey \<and>
      Certificate certAndKey = der # ders \<and> ParseCertificate L der = Inl err \<longrightarrow>
      fst (buildCertificate L path pass w) = Returns (Inl err)) \<and>
   (\<forall>err. fst (buildCertificate L path pass w) = Returns (Inl err) \<longrightarrow>
      fst (reload L \<lparr>keystorePath = path, keystorePass = pass, cached = None\<rparr> w) = Returns (Some err) \<and>
      cached (fst (snd (reload L \<lparr>keystorePath = path, keystorePass = pass, cached = None\<rparr> w))) = None) \<and>
   (\<forall>keystoreBytes pemBlocks certAndKey der ders leaf.
      files w path = Inr keystoreBytes \<and> ToPEM L keystoreBytes pass = Inr pemBlocks \<and>
      X509KeyPair L (encodeBlocks L pemBlocks []) (encodeBlocks L pemBlocks []) = Inr certAndKey \<and>
      Certificate certAndKey = der # ders \<and> ParseCertificate L der = Inr leaf \<longrightarrow>
      fst (buildCertificate L path pass w) =
        Returns (Inr \<lparr>keystorePath = path, keystorePass = pass,
                       cached = Some (certAndKey\<lparr>Leaf := Some leaf\<rparr>)\<rparr>)) \<and>
   (\<forall>cert. fst (buildCertificate L path pass w) = Returns (Inr cert) \<longrightarrow>
      (\<exists>keystoreBytes pemBlocks certAndKey der ders leaf.
         files w path = Inr keystoreBytes \<and> ToPEM L keystoreBytes pass = Inr pemBlocks \<and>
         X509KeyPair L (encodeBlocks L pemBlocks []) (encodeBlocks L pemBlocks []) = Inr certAndKey \<and>
         Certificate certAndKey = der # ders \<and> ParseCertificate L der = Inr leaf \<and>
         cert = \<lparr>keystorePath = path, keystorePass = pass,
                 cached = Some (certAndKey\<lparr>Leaf := Some leaf\<rparr>)\<rparr>))"
proof -
  let ?new = "\<lparr>keystorePath = path, keystorePass = pass, cached = None\<rparr>"
  have log: "readLog (snd (buildCertificate L path pass w)) = readLog w @ [path]"
    unfolding buildCertificate_reload using reload_world [of L ?new w]
    by simp
  have read: "fst (buildCertificate L path pass w) = Returns (Inl err)"
    if "files w path = Inl err" for err
    unfolding buildCertificate_reload using reload_read_fails(1) [of w ?new err L] that
    by simp
  have decode: "fst (buildCertificate L path pass w) = Returns (Inl err)"
    if "files w path = Inr keystoreBytes" "ToPEM L keystoreBytes pass = Inl err"
    for keystoreBytes err
    unfolding buildCertificate_reload using reload_ToPEM_fails(1) [of w ?new keystoreBytes L err] that
    by simp
  have pair: "fst (buildCertificate L path pass w) = Returns (Inl err)"
    if "files w path = Inr keystoreBytes" "ToPEM L keystoreBytes pass = Inr pemBlocks"
      "X509KeyPair L (encodeBlocks L pemBlocks []) (encodeBlocks L pemBlocks []) = Inl err"
    for keystoreBytes pemBlocks err
    unfolding buildCertificate_reload
    using reload_X509KeyPair_fails(1) [of w ?new keystoreBytes L pemBlocks err] that
    by simp
  have leaf: "fst (buildCertificate L path pass w) = Returns (Inl err)"
    if "files w path = Inr keystoreBytes" "ToPEM L keystoreBytes pass = Inr pemBlocks"
      "X509KeyPair L (encodeBlocks L pemBlocks []) (encodeBlocks L pemBlocks []) = Inr certAndKey"
      "Certificate certAndKey = der # ders" "ParseCertificate L der = Inl err"
    for keystoreBytes pemBlocks certAndKey der ders err
    unfolding buildCertificate_reload
    using reload_ParseCertificate_fails(1) [of w ?new keystoreBytes L pemBlocks certAndKey der ders err] that
    by simp
  have unset: "fst (reload L ?new w) = Returns (Some err) \<and> cached (fst (snd (reload L ?new w))) = None"
    if "fst (buildCertificate L path pass w) = Returns (Inl err)" for err
  proof -
    from buildCertificate_Inl [OF that] have failed: "fst (reload L ?new w) = Returns (Some err)" .
    then have "fst (snd (reload L ?new w)) = ?new"
      using reload_unchanged [of L ?new w] by simp
    with failed show ?thesis
      by simp
  qed
  have built: "\<exists>keystoreBytes pemBlocks certAndKey der ders leaf.
         files w path = Inr keystoreBytes \<and> ToPEM L keystoreBytes pass = Inr pemBlocks \<and>
         X509KeyPair L (encodeBlocks L pemBlocks []) (encodeBlocks L pemBlocks []) = Inr certAndKey \<and>
         Certificate certAndKey = der # ders \<and> ParseCertificate L der = Inr leaf \<and>
         cert = \<lparr>keystorePath = path, keystorePass = pass,
                 cached = Some (certAndKey\<lparr>Leaf := Some leaf\<rparr>)\<rparr>"
    if "fst (buildCertificate L path pass w) = Returns (Inr cert)" for cert
    using reload_succeeds [OF buildCertificate_Inr(1) [OF that]] buildCertificate_Inr(2) [OF that]
    by simp
  have ok: "fst (buildCertificate L path pass w) =
        Returns (Inr \<lparr>keystorePath = path, keystorePass = pass,
                       cached = Some (certAndKey\<lparr>Leaf := Some leaf\<rparr>)\<rparr>)"
    if "files w path = Inr keystoreBytes" "ToPEM L keystoreBytes pass = Inr pemBlocks"
      "X509KeyPair L (encodeBlocks L pemBlocks []) (encodeBlocks L pemBlocks []) = Inr certAndKey"
      "Certificate certAndKey = der # ders" "ParseCertificate L der = Inr leaf"
    for keystoreBytes pemBlocks certAndKey der ders leaf
    using that unfolding buildCertificate_def reload_def ReadFile_def
    by simp
  from log read decode pair leaf unset ok built show ?thesis
    by blast
qed

theorem buildCertificate_all_or_nothing_witness:
  "fst (buildCertificate exampleLibs ''server.p12'' ''secret'' exampleWorld) = Returns (Inr served) \<and>
   cached served = Some exampleBundle \<and>
   fst (buildCertificate exampleLibs ''server.p12'' ''wrong'' exampleWorld) =
     Returns (Inl (Error ''pkcs12: decryption password incorrect'')) \<and>
   fst (buildCertificate exampleLibs ''gone.p12'' ''secret'' exampleWorld) =
     Returns (Inl (Error ''no such file or directory'')) \<and>
   readLog (snd (buildCertificate exampleLibs ''gone.p12'' ''secret'' exampleWorld)) = [''gone.p12'']"
proof -
  have gone: "files exampleWorld ''gone.p12'' = Inl (Error ''no such file or directory'')"
    and log: "readLog exampleWorld = []"
    by (simp_all add: exampleWorld_def)
  have wrong: "files exampleWorld ''server.p12'' = Inr [1, 7] \<and>
      ToPEM exampleLibs [1, 7] ''wrong'' = Inl (Error ''pkcs12: decryption password incorrect'')"
    by (simp add: exampleWorld_def exampleLibs_def)
  have good: "files exampleWorld ''server.p12'' = Inr [1, 7] \<and>
      ToPEM exampleLibs [1, 7] ''secret'' = Inr [\<lparr>Type = ''CERTIFICATE'', Headers = [], Bytes = [1, 7]\<rparr>] \<and>
      X509KeyPair exampleLibs
        (encodeBlocks exampleLibs [\<lparr>Type = ''CERTIFICATE'', Headers = [], Bytes = [1, 7]\<rparr>] [])
        (encodeBlocks exampleLibs [\<lparr>Type = ''CERTIFICATE'', Headers = [], Bytes = [1, 7]\<rparr>] []) =
        Inr \<lparr>Certificate = [[1]], PrivateKey = KeyMaterial [7], Leaf = None\<rparr> \<and>
      Certificate \<lparr>Certificate = [[1]], PrivateKey = KeyMaterial [7], Leaf = None\<rparr> = [1] # [] \<and>
      ParseCertificate exampleLibs [1] = Inr exampleLeaf"
    by (simp add: exampleWorld_def exampleLibs_def exampleMatches_def)
  note all = buildCertificate_all_or_nothing [of exampleLibs _ _ exampleWorld]
  have 1: "fst (buildCertificate exampleLibs ''gone.p12'' ''secret'' exampleWorld) =
     Returns (Inl (Error ''no such file or directory''))"
    using all [of "''gone.p12''" "''secret''"] gone by blast
  have 2: "readLog (snd (buildCertificate exampleLibs ''gone.p12'' ''secret'' exampleWorld)) = [''gone.p12'']"
    using all [of "''gone.p12''" "''secret''"] log by simp
  have 3: "fst (buildCertificate exampleLibs ''server.p12'' ''wrong'' exampleWorld) =
     Returns (Inl (Error ''pkcs12: decryption password incorrect''))"
    using all [of "''server.p12''" "''wrong''"] wrong by blast
  have "fst (buildCertificate exampleLibs ''server.p12'' ''secret'' exampleWorld) =
     Returns (Inr \<lparr>keystorePath = ''server.p12'', keystorePass = ''secret'',
       cached = Some (\<lparr>Certificate = [[1]], PrivateKey = KeyMaterial [7], Leaf = None\<rparr>\<lparr>Leaf := Some exampleLeaf\<rparr>)\<rparr>)"
    using all [of "''server.p12''" "''secret''"] good by blast
  then have 4: "fst (buildCertificate exampleLibs ''server.p12'' ''secret'' exampleWorld) = Returns (Inr served)"
    by (simp add: served_def exampleBundle_def)
  have 5: "cached served = Some exampleBundle"
    by (simp add: served_def)
  from 1 2 3 4 5 show ?thesis
    by simp
qed

section \<open>What is published\<close>

lemma example_X509KeyPair_verifies: "X509KeyPair_verifies exampleLibs exampleMatches"
  unfolding X509KeyPair_verifies_def
  by (auto simp add: exampleLibs_def split: if_splits)

lemma example_reload_mismatch:
  "reload exampleLibs (served\<lparr>keystorePath := ''mismatch.p12''\<rparr>) exampleWorld =
     (Returns (Some (Error ''tls: private key does not match public key'')),
      served\<lparr>keystorePath := ''mismatch.p12''\<rparr>, exampleWorld\<lparr>readLog := [''mismatch.p12'']\<rparr>)"
  by (simp add: reload_def ReadFile_def exampleLibs_def exampleWorld_def served_def
      exampleMatches_def)

text \<open>
  C8. Let \<^verbatim>\<open>tls.X509KeyPair\<close> return only pairs whose private key matches the first
  certificate of the chain. Then whenever \<^verbatim>\<open>reload\<close> returns nil, the bundle in the slot
  has a first certificate and its private key matches it; and whenever
  \<^verbatim>\<open>tls.X509KeyPair\<close> rejects the pair decoded from the container, \<^verbatim>\<open>reload\<close> returns
  that error and the store is as before.
\<close>

theorem reload_key_matches_leaf:
  assumes "X509KeyPair_verifies L matches"
  shows "(fst (reload L c w) = Returns None \<longrightarrow>
            (\<exists>b der ders. cached (fst (snd (reload L c w))) = Some b \<and>
               Certificate b = der # ders \<and> matches (PrivateKey b) der)) \<and>
         (\<forall>keystoreBytes pemBlocks err.
            files w (keystorePath c) = Inr keystoreBytes \<and>
            ToPEM L keystoreBytes (keystorePass c) = Inr pemBlocks \<and>
            X509KeyPair L (encodeBlocks L pemBlocks []) (encodeBlocks L pemBlocks []) = Inl err \<longrightarrow>
            fst (reload L c w) = Returns (Some err) \<and> fst (snd (reload L c w)) = c)"
proof -
  have matched: "\<exists>b der ders. cached (fst (snd (reload L c w))) = Some b \<and>
      Certificate b = der # ders \<and> matches (PrivateKey b) der"
    if "fst (reload L c w) = Returns None"
  proof -
    from reload_succeeds [OF that] obtain pemBlocks certAndKey leaf where
      pair: "X509KeyPair L (encodeBlocks L pemBlocks []) (encodeBlocks L pemBlocks []) = Inr certAndKey"
      and slot: "fst (snd (reload L c w)) = c\<lparr>cached := Some (certAndKey\<lparr>Leaf := Some leaf\<rparr>)\<rparr>"
      by blast
    from assms pair obtain der ders where
      "Certificate certAndKey = der # ders" "matches (PrivateKey certAndKey) der"
      unfolding X509KeyPair_verifies_def by blast
    with slot show ?thesis
      by simp
  qed
  show ?thesis
    using matched reload_X509KeyPair_fails [of w c _ L]
    by blast
qed

theorem reload_key_matches_leaf_witness:
  "X509KeyPair_verifies exampleLibs exampleMatches \<and>
   fst (reload exampleLibs neverLoaded exampleWorld) = Returns None \<and>
   cached (fst (snd (reload exampleLibs neverLoaded exampleWorld))) = Some exampleBundle \<and>
   exampleMatches (PrivateKey exampleBundle) [1] \<and>
   \<not> exampleMatches (KeyMaterial [9]) [1] \<and>
   fst (reload exampleLibs (served\<lparr>keystorePath := ''mismatch.p12''\<rparr>) exampleWorld) =
     Returns (Some (Error ''tls: private key does not match public key'')) \<and>
   fst (snd (reload exampleLibs (served\<lparr>keystorePath := ''mismatch.p12''\<rparr>) exampleWorld)) =
     served\<lparr>keystorePath := ''mismatch.p12''\<rparr>"
proof -
  have ok: "fst (reload exampleLibs neverLoaded exampleWorld) = Returns None"
    and slot: "cached (fst (snd (reload exampleLibs neverLoaded exampleWorld))) = Some exampleBundle"
    by (simp_all add: example_reload_ok served_def)
  from reload_key_matches_leaf [OF example_X509KeyPair_verifies, of neverLoaded exampleWorld] ok slot
  have "\<exists>der ders. Certificate exampleBundle = der # ders \<and> exampleMatches (PrivateKey exampleBundle) der"
    by simp
  then have matches: "exampleMatches (PrivateKey exampleBundle) [1]"
    by (simp add: exampleBundle_def)
  have distinguishes: "\<not> exampleMatches (KeyMaterial [9]) [1]"
    by (simp add: exampleMatches_def)
  from example_X509KeyPair_verifies ok slot matches distinguishes show ?thesis
    by (simp add: example_reload_mismatch)
qed

lemma reload_leaf:
  assumes "\<forall>b. cached c = Some b \<longrightarrow>
             (\<exists>der ders leaf. Certificate b = der # ders \<and> Leaf b = Some leaf \<and>
                ParseCertificate L der = Inr leaf)"
  shows "\<forall>b. cached (fst (snd (reload L c w))) = Some b \<longrightarrow>
           (\<exists>der ders leaf. Certificate b = der # ders \<and> Leaf b = Some leaf \<and>
              ParseCertificate L der = Inr leaf)"
proof (cases "fst (reload L c w) = Returns None")
  case True
  from reload_succeeds [OF True] show ?thesis
    by auto
next
  case False
  from reload_unchanged [OF False] assms show ?thesis
    by simp
qed

lemma reloads_leaf:
  assumes "\<forall>b. cached c = Some b \<longrightarrow>
             (\<exists>der ders leaf. Certificate b = der # ders \<and> Leaf b = Some leaf \<and>
                ParseCertificate L der = Inr leaf)"
  shows "\<forall>b. cached (reloads L c ws) = Some b \<longrightarrow>
           (\<exists>der ders leaf. Certificate b = der # ders \<and> Leaf b = Some leaf \<and>
              ParseCertificate L der = Inr leaf)"
  using assms
proof (induction ws arbitrary: c)
  case Nil
  then show ?case
    by simp
next
  case (Cons w ws)
  from Cons.IH [OF reload_leaf [OF Cons.prems]] show ?case
    by simp
qed

text \<open>
  C10. Start from a store whose slot is unset and call \<^verbatim>\<open>reload\<close> any number of times,
  on any file systems. A bundle found in the slot afterwards has a first certificate and
  a non-nil \<^verbatim>\<open>Leaf\<close>, and that leaf is what \<^verbatim>\<open>x509.ParseCertificate\<close> returns for the
  first certificate of its chain. A \<^verbatim>\<open>reload\<close> whose leaf parse fails leaves the store as
  it was.
\<close>

theorem published_leaf_parsed:
  "(\<forall>b. cached (reloads L \<lparr>keystorePath = path, keystorePass = pass, cached = None\<rparr> ws) = Some b \<longrightarrow>
      (\<exists>der ders leaf. Certificate b = der # ders \<and> Leaf b = Some leaf \<and>
         ParseCertificate L der = Inr leaf)) \<and>
   (\<forall>keystoreBytes pemBlocks certAndKey der ders err.
      files w (keystorePath c) = Inr keystoreBytes \<and>
      ToPEM L keystoreBytes (keystorePass c) = Inr pemBlocks \<and>
      X509KeyPair L (encodeBlocks L pemBlocks []) (encodeBlocks L pemBlocks []) = Inr certAndKey \<and>
      Certificate certAndKey = der # ders \<and> ParseCertificate L der = Inl err \<longrightarrow>
      fst (reload L c w) = Returns (Some err) \<and> fst (snd (reload L c w)) = c)"
proof -
  have "\<forall>b. cached \<lparr>keystorePath = path, keystorePass = pass, cached = None\<rparr> = Some b \<longrightarrow>
      (\<exists>der ders leaf. Certificate b = der # ders \<and> Leaf b = Some leaf \<and>
         ParseCertificate L der = Inr leaf)"
    by simp
  from reloads_leaf [OF this] reload_ParseCertificate_fails [of w c _ L] show ?thesis
    by blast
qed

lemma example_reload_replaced:
  "reload exampleLibs served replacedWorld =
     (Returns (Some (Error ''x509: malformed certificate'')), served,
      replacedWorld\<lparr>readLog := [''server.p12'']\<rparr>)"
  by (simp add: reload_def ReadFile_def exampleLibs_def exampleWorld_def replacedWorld_def
      served_def exampleMatches_def)

theorem published_leaf_parsed_witness:
  "cached (reloads exampleLibs neverLoaded [exampleWorld, replacedWorld]) = Some exampleBundle \<and>
   Certificate exampleBundle = [[1]] \<and> Leaf exampleBundle = Some exampleLeaf \<and>
   ParseCertificate exampleLibs [1] = Inr exampleLeaf \<and>
   fst (reload exampleLibs served replacedWorld) = Returns (Some (Error ''x509: malformed certificate'')) \<and>
   fst (snd (reload exampleLibs served replacedWorld)) = served"
proof -
  have slot: "cached (reloads exampleLibs neverLoaded [exampleWorld, replacedWorld]) = Some exampleBundle"
    by (simp add: example_reload_ok example_reload_replaced) (simp add: served_def)
  have new: "neverLoaded = \<lparr>keystorePath = ''server.p12'', keystorePass = ''secret'', cached = None\<rparr>"
    by (simp add: neverLoaded_def)
  from published_leaf_parsed [of exampleLibs "''server.p12''" "''secret''" "[exampleWorld, replacedWorld]"]
    slot [unfolded new]
  obtain der ders leaf where
    leaf: "Certificate exampleBundle = der # ders" "Leaf exampleBundle = Some leaf"
      "ParseCertificate exampleLibs der = Inr leaf"
    by blast
  from leaf have "der = [1]" "leaf = exampleLeaf"
    by (simp_all add: exampleBundle_def)
  with leaf slot show ?thesis
    by (simp add: example_reload_replaced exampleBundle_def)
qed

section \<open>Calls running at the same time\<close>

lemma consistent_start: "consistent L (start w path pass reloading)"
  by (simp add: consistent_def start_def)

lemma step_pass: "keystorePass (store (step L i s)) = keystorePass (store s)"
  unfolding step_def
  by (simp split: frame.splits prod.splits sum.splits list.splits)

lemma consistentI:
  assumes "\<And>i j a. calls s i = reload_74 a \<Longrightarrow> calls s j = reload_74 a \<Longrightarrow> i = j"
    and "\<And>i a. calls s i = reload_74 a \<Longrightarrow>
           a < length (heap s) \<and> paired L (keystorePass (store s)) (heap s ! a)"
    and "\<And>i a. calls s i = reload_79 a \<Longrightarrow>
           frozen s a \<and> generation L (keystorePass (store s)) (heap s ! a)"
    and "\<And>i p. calls s i = getCertificate_returned (Some p) \<Longrightarrow>
           frozen s p \<and> generation L (keystorePass (store s)) (heap s ! p)"
    and "\<And>p. cached (store s) = Some p \<Longrightarrow>
           frozen s p \<and> generation L (keystorePass (store s)) (heap s ! p)"
    and "\<And>i pemBytes. calls s i = reload_69 pemBytes \<Longrightarrow> decoded L (keystorePass (store s)) pemBytes"
  shows "consistent L s"
  unfolding consistent_def using assms by blast

lemma consistent_writer:
  "consistent L s \<Longrightarrow> calls s i = reload_74 a \<Longrightarrow> calls s j = reload_74 a \<Longrightarrow> i = j"
  unfolding consistent_def by blast

lemma consistent_74:
  "consistent L s \<Longrightarrow> calls s i = reload_74 a \<Longrightarrow>
   a < length (heap s) \<and> paired L (keystorePass (store s)) (heap s ! a)"
  unfolding consistent_def by blast

lemma consistent_79:
  "consistent L s \<Longrightarrow> calls s i = reload_79 a \<Longrightarrow>
   frozen s a \<and> generation L (keystorePass (store s)) (heap s ! a)"
  unfolding consistent_def by blast

lemma consistent_returned:
  "consistent L s \<Longrightarrow> calls s i = getCertificate_returned (Some p) \<Longrightarrow>
   frozen s p \<and> generation L (keystorePass (store s)) (heap s ! p)"
  unfolding consistent_def by blast

lemma consistent_cached:
  "consistent L s \<Longrightarrow> cached (store s) = Some p \<Longrightarrow>
   frozen s p \<and> generation L (keystorePass (store s)) (heap s ! p)"
  unfolding consistent_def by blast

lemma consistent_69:
  "consistent L s \<Longrightarrow> calls s i = reload_69 pemBytes \<Longrightarrow> decoded L (keystorePass (store s)) pemBytes"
  unfolding consistent_def by blast

text \<open>A call moves to a frame that owns no certificate; heap and slot stay.\<close>

lemma consistent_calls:
  assumes ok: "consistent L s"
    and heap: "heap s' = heap s" and cert: "store s' = store s"
    and calls: "calls s' = (calls s)(i := f)"
    and f: "\<And>a. f \<noteq> reload_74 a" "\<And>a. f \<noteq> reload_79 a"
      "\<And>p. f = getCertificate_returned (Some p) \<Longrightarrow>
         frozen s p \<and> generation L (keystorePass (store s)) (heap s ! p)"
      "\<And>pemBytes. f = reload_69 pemBytes \<Longrightarrow> decoded L (keystorePass (store s)) pemBytes"
  shows "consistent L s'"
proof -
  have fr: "frozen s' p" if "frozen s p" for p
    using that f(1) heap calls unfolding frozen_def by simp
  have old: "calls s j = g" if "calls s' j = g" "g \<noteq> f" for j g
    using that unfolding calls by (simp split: if_splits)
  show ?thesis
  proof (rule consistentI)
    fix j k a assume "calls s' j = reload_74 a" "calls s' k = reload_74 a"
    then have "calls s j = reload_74 a" "calls s k = reload_74 a"
      using old f(1) by metis+
    then show "j = k" by (rule consistent_writer [OF ok])
  next
    fix j a assume "calls s' j = reload_74 a"
    then have "calls s j = reload_74 a" using old f(1) by metis
    from consistent_74 [OF ok this]
    show "a < length (heap s') \<and> paired L (keystorePass (store s')) (heap s' ! a)"
      unfolding heap cert .
  next
    fix j a assume "calls s' j = reload_79 a"
    then have "calls s j = reload_79 a" using old f(2) by metis
    from consistent_79 [OF ok this]
    show "frozen s' a \<and> generation L (keystorePass (store s')) (heap s' ! a)"
      using fr heap cert by simp
  next
    fix j p assume new: "calls s' j = getCertificate_returned (Some p)"
    have "frozen s p \<and> generation L (keystorePass (store s)) (heap s ! p)"
    proof (cases "f = getCertificate_returned (Some p)")
      case True
      then show ?thesis by (rule f(3))
    next
      case False
      with new have "calls s j = getCertificate_returned (Some p)" using old by metis
      then show ?thesis by (rule consistent_returned [OF ok])
    qed
    then show "frozen s' p \<and> generation L (keystorePass (store s')) (heap s' ! p)"
      using fr heap cert by simp
  next
    fix p assume "cached (store s') = Some p"
    then have "cached (store s) = Some p" unfolding cert .
    from consistent_cached [OF ok this]
    show "frozen s' p \<and> generation L (keystorePass (store s')) (heap s' ! p)"
      using fr heap cert by simp
  next
    fix j pemBytes assume new: "calls s' j = reload_69 pemBytes"
    have "decoded L (keystorePass (store s)) pemBytes"
    proof (cases "f = reload_69 pemBytes")
      case True
      then show ?thesis by (rule f(4))
    next
      case False
      with new have "calls s j = reload_69 pemBytes" using old by metis
      then show ?thesis by (rule consistent_69 [OF ok])
    qed
    then show "decoded L (keystorePass (store s')) pemBytes"
      unfolding cert .
  qed
qed

text \<open>Line 69: the new certificate gets the next address.\<close>

lemma consistent_alloc:
  assumes ok: "consistent L s"
    and at: "calls s i = reload_69 pemBytes"
    and pair: "X509KeyPair L pemBytes pemBytes = Inr certAndKey"
    and heap: "heap s' = heap s @ [certAndKey]" and cert: "store s' = store s"
    and calls: "calls s' = (calls s)(i := reload_74 (length (heap s)))"
  shows "consistent L s'"
proof -
  have fr: "frozen s' p \<and> heap s' ! p = heap s ! p" if "frozen s p" for p
    using that heap calls unfolding frozen_def by (simp add: nth_append)
  have old: "calls s j = g" if "calls s' j = g" "g \<noteq> reload_74 (length (heap s))" for j g
    using that unfolding calls by (simp split: if_splits)
  have below: "a < length (heap s)" if "calls s j = reload_74 a" for j a
    using consistent_74 [OF ok that] by simp
  show ?thesis
  proof (rule consistentI)
    fix j k a assume jk: "calls s' j = reload_74 a" "calls s' k = reload_74 a"
    show "j = k"
    proof (cases "a = length (heap s)")
      case True
      have "j = i"
      proof (rule ccontr)
        assume "j \<noteq> i"
        with jk(1) have "calls s j = reload_74 a" unfolding calls by simp
        from below [OF this] True show False by simp
      qed
      moreover have "k = i"
      proof (rule ccontr)
        assume "k \<noteq> i"
        with jk(2) have "calls s k = reload_74 a" unfolding calls by simp
        from below [OF this] True show False by simp
      qed
      ultimately show ?thesis by simp
    next
      case False
      with jk have "calls s j = reload_74 a" "calls s k = reload_74 a"
        using old by simp_all
      then show ?thesis by (rule consistent_writer [OF ok])
    qed
  next
    fix j a assume j: "calls s' j = reload_74 a"
    show "a < length (heap s') \<and> paired L (keystorePass (store s')) (heap s' ! a)"
    proof (cases "a = length (heap s)")
      case True
      have "paired L (keystorePass (store s)) certAndKey"
        unfolding paired_def using consistent_69 [OF ok at] pair by blast
      with True show ?thesis
        unfolding heap cert by simp
    next
      case False
      with j have "calls s j = reload_74 a" using old by simp
      from consistent_74 [OF ok this] show ?thesis
        unfolding heap cert by (simp add: nth_append)
    qed
  next
    fix j a assume "calls s' j = reload_79 a"
    then have "calls s j = reload_79 a" using old by simp
    from consistent_79 [OF ok this]
    show "frozen s' a \<and> generation L (keystorePass (store s')) (heap s' ! a)"
      using fr cert by simp
  next
    fix j p assume "calls s' j = getCertificate_returned (Some p)"
    then have "calls s j = getCertificate_returned (Some p)" using old by simp
    from consistent_returned [OF ok this]
    show "frozen s' p \<and> generation L (keystorePass (store s')) (heap s' ! p)"
      using fr cert by simp
  next
    fix p assume "cached (store s') = Some p"
    then have "cached (store s) = Some p" unfolding cert .
    from consistent_cached [OF ok this]
    show "frozen s' p \<and> generation L (keystorePass (store s')) (heap s' ! p)"
      using fr cert by simp
  next
    fix j pemBytes' assume "calls s' j = reload_69 pemBytes'"
    then have "calls s j = reload_69 pemBytes'" using old by simp
    from consistent_69 [OF ok this] show "decoded L (keystorePass (store s')) pemBytes'"
      unfolding cert .
  qed
qed


text \<open>Line 74: the writer of \<open>a\<close> assigns to a field of the certificate at \<open>a\<close>.\<close>

lemma consistent_write:
  assumes ok: "consistent L s"
    and at: "calls s i = reload_74 a"
    and heap: "heap s' = (heap s)[a := x]" and cert: "store s' = store s"
    and calls: "calls s' = (calls s)(i := f)"
    and f: "\<And>a'. f \<noteq> reload_74 a'" "\<And>pemBytes. f \<noteq> reload_69 pemBytes"
      "\<And>p. f \<noteq> getCertificate_returned p"
      "\<And>a'. f = reload_79 a' \<Longrightarrow> a' = a \<and> generation L (keystorePass (store s)) x"
  shows "consistent L s'"
proof -
  have a: "a < length (heap s)"
    using consistent_74 [OF ok at] by simp
  have fr: "frozen s' p \<and> heap s' ! p = heap s ! p" if "frozen s p" for p
  proof -
    from that at have "p \<noteq> a"
      unfolding frozen_def by auto
    with that f(1) show ?thesis
      unfolding frozen_def heap calls by simp
  qed
  have old: "calls s j = g" if "calls s' j = g" "g \<noteq> f" for j g
    using that unfolding calls by (simp split: if_splits)
  have other: "j \<noteq> i \<and> calls s j = reload_74 a' \<and> a' \<noteq> a" if "calls s' j = reload_74 a'" for j a'
  proof -
    from that f(1) have j: "j \<noteq> i"
      unfolding calls by auto
    with that have c: "calls s j = reload_74 a'"
      unfolding calls by simp
    from consistent_writer [OF ok c] at j have "a' \<noteq> a"
      by auto
    with j c show ?thesis by simp
  qed
  show ?thesis
  proof (rule consistentI)
    fix j k a' assume "calls s' j = reload_74 a'" "calls s' k = reload_74 a'"
    then have "calls s j = reload_74 a'" "calls s k = reload_74 a'"
      using other by simp_all
    then show "j = k" by (rule consistent_writer [OF ok])
  next
    fix j a' assume "calls s' j = reload_74 a'"
    from other [OF this] have c: "calls s j = reload_74 a'" and ne: "a' \<noteq> a"
      by simp_all
    from consistent_74 [OF ok c] ne
    show "a' < length (heap s') \<and> paired L (keystorePass (store s')) (heap s' ! a')"
      unfolding heap cert by simp
  next
    fix j a' assume new: "calls s' j = reload_79 a'"
    show "frozen s' a' \<and> generation L (keystorePass (store s')) (heap s' ! a')"
    proof (cases "f = reload_79 a'")
      case True
      from f(4) [OF True] have eq: "a' = a" and gen: "generation L (keystorePass (store s)) x"
        by simp_all
      have "calls s' k \<noteq> reload_74 a" for k
        using other [of k a] by auto
      with a eq gen show ?thesis
        unfolding frozen_def heap cert by simp
    next
      case False
      with new have "calls s j = reload_79 a'" using old by metis
      from consistent_79 [OF ok this] show ?thesis
        using fr cert by simp
    qed
  next
    fix j p assume "calls s' j = getCertificate_returned (Some p)"
    then have "calls s j = getCertificate_returned (Some p)" using old f(3) by metis
    from consistent_returned [OF ok this]
    show "frozen s' p \<and> generation L (keystorePass (store s')) (heap s' ! p)"
      using fr cert by simp
  next
    fix p assume "cached (store s') = Some p"
    then have "cached (store s) = Some p" unfolding cert .
    from consistent_cached [OF ok this]
    show "frozen s' p \<and> generation L (keystorePass (store s')) (heap s' ! p)"
      using fr cert by simp
  next
    fix j pemBytes assume "calls s' j = reload_69 pemBytes"
    then have "calls s j = reload_69 pemBytes" using old f(2) by metis
    from consistent_69 [OF ok this] show "decoded L (keystorePass (store s')) pemBytes"
      unfolding cert .
  qed
qed

text \<open>Line 79: the address of a finished certificate goes into the slot.\<close>

lemma consistent_store:
  assumes ok: "consistent L s"
    and at: "calls s i = reload_79 a"
    and heap: "heap s' = heap s" and cert: "store s' = (store s)\<lparr>cached := Some a\<rparr>"
    and calls: "calls s' = (calls s)(i := reload_returned None)"
  shows "consistent L s'"
proof -
  have fr: "frozen s' p" if "frozen s p" for p
    using that heap calls unfolding frozen_def by simp
  have old: "calls s j = g" if "calls s' j = g" "g \<noteq> reload_returned None" for j g
    using that unfolding calls by (simp split: if_splits)
  have pass: "keystorePass (store s') = keystorePass (store s)"
    unfolding cert by simp
  show ?thesis
  proof (rule consistentI)
    fix j k a' assume "calls s' j = reload_74 a'" "calls s' k = reload_74 a'"
    then have "calls s j = reload_74 a'" "calls s k = reload_74 a'"
      using old by simp_all
    then show "j = k" by (rule consistent_writer [OF ok])
  next
    fix j a' assume "calls s' j = reload_74 a'"
    then have "calls s j = reload_74 a'" using old by simp
    from consistent_74 [OF ok this]
    show "a' < length (heap s') \<and> paired L (keystorePass (store s')) (heap s' ! a')"
      unfolding heap pass .
  next
    fix j a' assume "calls s' j = reload_79 a'"
    then have "calls s j = reload_79 a'" using old by simp
    from consistent_79 [OF ok this]
    show "frozen s' a' \<and> generation L (keystorePass (store s')) (heap s' ! a')"
      using fr heap pass by simp
  next
    fix j p assume "calls s' j = getCertificate_returned (Some p)"
    then have "calls s j = getCertificate_returned (Some p)" using old by simp
    from consistent_returned [OF ok this]
    show "frozen s' p \<and> generation L (keystorePass (store s')) (heap s' ! p)"
      using fr heap pass by simp
  next
    fix p assume "cached (store s') = Some p"
    then have "p = a" unfolding cert by simp
    with consistent_79 [OF ok at]
    show "frozen s' p \<and> generation L (keystorePass (store s')) (heap s' ! p)"
      using fr heap pass by simp
  next
    fix j pemBytes assume "calls s' j = reload_69 pemBytes"
    then have "calls s j = reload_69 pemBytes" using old by simp
    from consistent_69 [OF ok this] show "decoded L (keystorePass (store s')) pemBytes"
      unfolding pass .
  qed
qed


lemma consistent_step:
  assumes ok: "consistent L s"
  shows "consistent L (step L i s)"
proof (cases "calls s i")
  case reload_54
  show ?thesis
  proof (cases "files (disk s) (keystorePath (store s))")
    case (Inl err)
    with reload_54 show ?thesis
      by (intro consistent_calls [OF ok, where i = i and f = "reload_returned (Some err)"])
        (simp_all add: step_def ReadFile_def)
  next
    case (Inr keystoreBytes)
    with reload_54 show ?thesis
      by (intro consistent_calls [OF ok, where i = i and f = "reload_59 keystoreBytes"])
        (simp_all add: step_def ReadFile_def)
  qed
next
  case (reload_59 keystoreBytes)
  show ?thesis
  proof (cases "ToPEM L keystoreBytes (keystorePass (store s))")
    case (Inl err)
    with reload_59 show ?thesis
      by (intro consistent_calls [OF ok, where i = i and f = "reload_returned (Some err)"])
        (simp_all add: step_def)
  next
    case (Inr pemBlocks)
    then have "decoded L (keystorePass (store s)) (encodeBlocks L pemBlocks [])"
      unfolding decoded_def by blast
    with reload_59 Inr show ?thesis
      by (intro consistent_calls [OF ok, where i = i and f = "reload_69 (encodeBlocks L pemBlocks [])"])
        (simp_all add: step_def)
  qed
next
  case (reload_69 pemBytes)
  show ?thesis
  proof (cases "X509KeyPair L pemBytes pemBytes")
    case (Inl err)
    with reload_69 show ?thesis
      by (intro consistent_calls [OF ok, where i = i and f = "reload_returned (Some err)"])
        (simp_all add: step_def)
  next
    case (Inr certAndKey)
    with reload_69 show ?thesis
      by (intro consistent_alloc [OF ok reload_69 Inr]) (simp_all add: step_def)
  qed
next
  case (reload_74 a)
  show ?thesis
  proof (cases "Certificate (heap s ! a)")
    case Nil
    with reload_74 show ?thesis
      by (intro consistent_calls [OF ok, where i = i and f = "reload_panicked ''index out of range''"])
        (simp_all add: step_def)
  next
    case (Cons der ders)
    show ?thesis
    proof (cases "ParseCertificate L der")
      case (Inl err)
      with reload_74 Cons show ?thesis
        by (intro consistent_write [OF ok reload_74, where f = "reload_returned (Some err)"
              and x = "(heap s ! a)\<lparr>Leaf := None\<rparr>"])
          (simp_all add: step_def)
    next
      case (Inr leaf)
      from consistent_74 [OF ok reload_74] Cons Inr
      have "generation L (keystorePass (store s)) ((heap s ! a)\<lparr>Leaf := Some leaf\<rparr>)"
        unfolding generation_def by blast
      with reload_74 Cons Inr show ?thesis
        by (intro consistent_write [OF ok reload_74, where f = "reload_79 a"
              and x = "(heap s ! a)\<lparr>Leaf := Some leaf\<rparr>"])
          (simp_all add: step_def)
    qed
  qed
next
  case (reload_79 a)
  then show ?thesis
    by (intro consistent_store [OF ok reload_79]) (simp_all add: step_def)
next
  case (reload_returned r)
  with ok show ?thesis
    by (simp add: step_def)
next
  case (reload_panicked msg)
  with ok show ?thesis
    by (simp add: step_def)
next
  case getCertificate_49
  then show ?thesis
    using consistent_cached [OF ok]
    by (intro consistent_calls [OF ok, where i = i and f = "getCertificate_returned (cached (store s))"])
      (simp_all add: step_def)
next
  case (getCertificate_returned p)
  with ok show ?thesis
    by (simp add: step_def)
qed

lemma consistent_occur: "consistent L s \<Longrightarrow> consistent L (occur L e s)"
proof (cases e)
  case (Run i)
  assume "consistent L s"
  with Run show ?thesis
    by (simp add: occur_def consistent_step)
next
  case (Replace f)
  assume "consistent L s"
  with Replace show ?thesis
    by (simp add: occur_def consistent_def frozen_def)
qed

lemma consistent_run: "consistent L s \<Longrightarrow> consistent L (run L s es)"
  by (induction es arbitrary: s) (simp_all add: consistent_occur)

text \<open>A certificate that no call at line 74 holds is not written to.\<close>

lemma frozen_step:
  assumes "frozen s p"
  shows "frozen (step L i s) p \<and> heap (step L i s) ! p = heap s ! p"
proof (cases "calls s i")
  case (reload_69 pemBytes)
  with assms show ?thesis
    unfolding frozen_def step_def
    by (simp add: nth_append split: sum.splits)
next
  case (reload_74 a)
  with assms have "p \<noteq> a"
    unfolding frozen_def by auto
  with assms reload_74 show ?thesis
    unfolding frozen_def step_def
    by (simp split: sum.splits list.splits)
qed (use assms in \<open>simp_all add: frozen_def step_def ReadFile_def split: sum.splits\<close>)

lemma frozen_occur:
  assumes "frozen s p"
  shows "frozen (occur L e s) p \<and> heap (occur L e s) ! p = heap s ! p"
proof (cases e)
  case (Run i)
  with frozen_step [OF assms] show ?thesis
    by (simp add: occur_def)
next
  case (Replace f)
  with assms show ?thesis
    by (simp add: occur_def frozen_def)
qed

lemma frozen_run:
  assumes "frozen s p"
  shows "frozen (run L s es) p \<and> heap (run L s es) ! p = heap s ! p"
  using assms
proof (induction es arbitrary: s)
  case Nil
  then show ?case by simp
next
  case (Cons e es)
  from frozen_occur [OF Cons.prems] Cons.IH [of "occur L e s"] show ?case
    by simp
qed


lemma run_append: "run L s (es @ es') = run L (run L s es) es'"
  by (induction es arbitrary: s) simp_all

lemma step_returned:
  assumes "calls (step L j s) i = getCertificate_returned r"
  shows "calls s i = getCertificate_returned r \<or>
         (calls s i = getCertificate_49 \<and> j = i \<and> r = cached (store s))"
proof (cases "j = i")
  case True
  show ?thesis
  proof (cases "calls s i")
    case (reload_74 a)
    with assms True show ?thesis
      unfolding step_def by (simp split: sum.splits list.splits)
  qed (use assms True in \<open>simp_all add: step_def ReadFile_def split: sum.splits\<close>)
next
  case False
  have "calls (step L j s) i = calls s i"
  proof (cases "calls s j")
    case (reload_74 a)
    with False show ?thesis
      unfolding step_def by (simp split: sum.splits list.splits)
  qed (use False in \<open>simp_all add: step_def ReadFile_def split: sum.splits\<close>)
  with assms show ?thesis by simp
qed

lemma occur_returned:
  assumes "calls (occur L e s) i = getCertificate_returned r"
  shows "calls s i = getCertificate_returned r \<or>
         (calls s i = getCertificate_49 \<and> e = Run i \<and> r = cached (store s))"
proof (cases e)
  case (Run j)
  with assms step_returned [of L j s i r] show ?thesis
    by (auto simp add: occur_def)
next
  case (Replace f)
  with assms show ?thesis
    by (simp add: occur_def)
qed

lemma run_returned:
  assumes "calls (run L (start w path pass reloading) es) i = getCertificate_returned r"
  shows "\<exists>es1 es2. es = es1 @ Run i # es2 \<and>
           calls (run L (start w path pass reloading) es1) i = getCertificate_49 \<and>
           cached (store (run L (start w path pass reloading) es1)) = r"
  using assms
proof (induction es arbitrary: r rule: rev_induct)
  case Nil
  then show ?case
    by (simp add: start_def split: if_splits)
next
  case (snoc e es)
  let ?s = "run L (start w path pass reloading) es"
  from snoc.prems have "calls (occur L e ?s) i = getCertificate_returned r"
    by (simp add: run_append)
  from occur_returned [OF this] show ?case
  proof
    assume "calls ?s i = getCertificate_returned r"
    from snoc.IH [OF this] obtain es1 es2 where
      "es = es1 @ Run i # es2"
      "calls (run L (start w path pass reloading) es1) i = getCertificate_49"
      "cached (store (run L (start w path pass reloading) es1)) = r"
      by blast
    then have "es @ [e] = es1 @ Run i # (es2 @ [e])"
      "calls (run L (start w path pass reloading) es1) i = getCertificate_49"
      "cached (store (run L (start w path pass reloading) es1)) = r"
      by simp_all
    then show ?thesis by blast
  next
    assume "calls ?s i = getCertificate_49 \<and> e = Run i \<and> r = cached (store ?s)"
    then have "es @ [e] = es @ Run i # []" "calls ?s i = getCertificate_49" "cached (store ?s) = r"
      by simp_all
    then show ?thesis by blast
  qed
qed

lemma run_pass: "keystorePass (store (run L s es)) = keystorePass (store s)"
proof (induction es arbitrary: s)
  case Nil
  show ?case by simp
next
  case (Cons e es)
  have "keystorePass (store (occur L e s)) = keystorePass (store s)"
    by (cases e) (simp_all add: occur_def step_pass)
  with Cons.IH [of "occur L e s"] show ?case
    by simp
qed

lemma view_heap:
  assumes "consistent L s" and "store s' = store s"
    and "\<And>p. p < length (heap s) \<Longrightarrow> heap s' ! p = heap s ! p"
  shows "view s' = view s"
proof (cases "cached (store s)")
  case None
  with assms(2) show ?thesis
    by (simp add: view_def)
next
  case (Some p)
  from consistent_cached [OF assms(1) Some] have "p < length (heap s)"
    by (simp add: frozen_def)
  from assms(3) [OF this] Some assms(2) show ?thesis
    by (simp add: view_def)
qed

lemma reload_uninterrupted:
  assumes ok: "consistent L s" and at: "calls s i = reload_54"
  shows "calls (run L s [Run i, Run i, Run i, Run i, Run i]) i =
           (case fst (reload L (view s) (disk s)) of
              Returns r \<Rightarrow> reload_returned r | Panics msg \<Rightarrow> reload_panicked msg) \<and>
         view (run L s [Run i, Run i, Run i, Run i, Run i]) = fst (snd (reload L (view s) (disk s))) \<and>
         disk (run L s [Run i, Run i, Run i, Run i, Run i]) = snd (snd (reload L (view s) (disk s)))"
proof (cases "files (disk s) (keystorePath (store s))")
  case (Inl err)
  with at show ?thesis
    by (simp add: occur_def step_def ReadFile_def reload_def view_def)
next
  case read: (Inr keystoreBytes)
  show ?thesis
  proof (cases "ToPEM L keystoreBytes (keystorePass (store s))")
    case (Inl err)
    with at read show ?thesis
      by (simp add: occur_def step_def ReadFile_def reload_def view_def)
  next
    case pem: (Inr pemBlocks)
    show ?thesis
    proof (cases "X509KeyPair L (encodeBlocks L pemBlocks []) (encodeBlocks L pemBlocks [])")
      case (Inl err)
      with at read pem show ?thesis
        by (simp add: occur_def step_def ReadFile_def reload_def view_def)
    next
      case pair: (Inr certAndKey)
      show ?thesis
      proof (cases "Certificate certAndKey")
        case Nil
        let ?s' = "run L s [Run i, Run i, Run i, Run i, Run i]"
        from at read pem pair Nil have
          s': "?s' = s\<lparr>disk := (disk s)\<lparr>readLog := readLog (disk s) @ [keystorePath (store s)]\<rparr>,
                 heap := heap s @ [certAndKey],
                 calls := (calls s)(i := reload_panicked ''index out of range'')\<rparr>"
          by (simp add: occur_def step_def ReadFile_def)
        have "view ?s' = view s"
          unfolding s' by (rule view_heap [OF ok]) (simp_all add: nth_append)
        with at read pem pair Nil show ?thesis
          unfolding s' by (simp add: reload_def ReadFile_def) (simp add: view_def)
      next
        case chain: (Cons der ders)
        show ?thesis
        proof (cases "ParseCertificate L der")
          case (Inl err)
          let ?s' = "run L s [Run i, Run i, Run i, Run i, Run i]"
          from at read pem pair chain Inl have
            s': "?s' = s\<lparr>disk := (disk s)\<lparr>readLog := readLog (disk s) @ [keystorePath (store s)]\<rparr>,
                   heap := heap s @ [certAndKey\<lparr>Leaf := None\<rparr>],
                   calls := (calls s)(i := reload_returned (Some err))\<rparr>"
            by (simp add: occur_def step_def ReadFile_def)
          have "view ?s' = view s"
            unfolding s' by (rule view_heap [OF ok]) (simp_all add: nth_append)
          with at read pem pair chain Inl show ?thesis
            unfolding s' by (simp add: reload_def ReadFile_def) (simp add: view_def)
        next
          case (Inr leaf)
          with at read pem pair chain show ?thesis
            by (simp add: occur_def step_def ReadFile_def reload_def view_def)
        qed
      qed
    qed
  qed
qed

lemma getCertificate_step:
  assumes "calls s i = getCertificate_49"
  shows "calls (step L i s) i = getCertificate_returned (cached (store s)) \<and>
         map_option (\<lambda>p. heap s ! p) (cached (store s)) = fst (getCertificate (view s) clientHello) \<and>
         snd (getCertificate (view s) clientHello) = None"
  using assms by (simp add: step_def getCertificate_def view_def)

lemmas example_run = exampleStart_def start_def exampleBefore_def exampleAfter_def occur_def
  step_def ReadFile_def exampleLibs_def exampleWorld_def exampleMatches_def server2_def

lemma example_run_heap:
  "heap (run exampleLibs exampleStart exampleBefore) = [exampleBundle, exampleBundle2]"
  by (simp add: example_run exampleBundle_def exampleBundle2_def)

lemma example_run_calls:
  "calls (run exampleLibs exampleStart exampleBefore) 1 = getCertificate_returned (Some 0)"
  "calls (run exampleLibs exampleStart exampleBefore) 2 = reload_79 1"
  by (simp_all add: example_run)

lemma example_run_after:
  "calls (run exampleLibs (run exampleLibs exampleStart exampleBefore) exampleAfter) 3 =
     getCertificate_returned (Some 1)"
  "cached (store (run exampleLibs (run exampleLibs exampleStart exampleBefore) exampleAfter)) = Some 1"
  by (simp_all add: example_run)

text \<open>
  C2. Let any number of calls of \<^verbatim>\<open>reload\<close> and \<^verbatim>\<open>getCertificate\<close> run interleaved,
  step by step in any order, from a store with a nil slot, the files on disk changing at
  any moment, and let a call of \<^verbatim>\<open>getCertificate\<close> have returned the address \<open>p\<close>. Then
  the certificate at \<open>p\<close> is whole and of one generation: its chain and key are those that
  \<^verbatim>\<open>tls.X509KeyPair\<close> returned for one decoded container, and its \<^verbatim>\<open>Leaf\<close> is the parsed
  first certificate of that chain. The address was the content of the slot at the moment
  the call ran its \<^verbatim>\<open>atomic.LoadPointer\<close>, the certificate at \<open>p\<close> is the one that was there
  at that moment, and no later step of any call changes it.
\<close>

theorem getCertificate_one_generation:
  assumes "s = run L (start w path pass reloading) es"
    and "calls s i = getCertificate_returned (Some p)"
  shows "p < length (heap s) \<and>
         (\<exists>keystoreBytes pemBlocks certAndKey der ders leaf.
            ToPEM L keystoreBytes pass = Inr pemBlocks \<and>
            X509KeyPair L (encodeBlocks L pemBlocks []) (encodeBlocks L pemBlocks []) = Inr certAndKey \<and>
            Certificate certAndKey = der # ders \<and>
            ParseCertificate L der = Inr leaf \<and>
            heap s ! p = certAndKey\<lparr>Leaf := Some leaf\<rparr>) \<and>
         (\<exists>es1 es2. es = es1 @ Run i # es2 \<and>
            calls (run L (start w path pass reloading) es1) i = getCertificate_49 \<and>
            cached (store (run L (start w path pass reloading) es1)) = Some p \<and>
            heap (run L (start w path pass reloading) es1) ! p = heap s ! p) \<and>
         (\<forall>es'. heap (run L s es') ! p = heap s ! p)"
proof -
  let ?s0 = "start w path pass reloading"
  have ok: "consistent L s"
    unfolding assms(1) by (rule consistent_run [OF consistent_start])
  have pass: "keystorePass (store s) = pass"
    unfolding assms(1) run_pass by (simp add: start_def)
  from consistent_returned [OF ok assms(2)] pass
  have frozen: "frozen s p" and gen: "generation L pass (heap s ! p)"
    by simp_all
  from frozen have 1: "p < length (heap s)"
    unfolding frozen_def by simp
  from gen have 2: "\<exists>keystoreBytes pemBlocks certAndKey der ders leaf.
            ToPEM L keystoreBytes pass = Inr pemBlocks \<and>
            X509KeyPair L (encodeBlocks L pemBlocks []) (encodeBlocks L pemBlocks []) = Inr certAndKey \<and>
            Certificate certAndKey = der # ders \<and>
            ParseCertificate L der = Inr leaf \<and>
            heap s ! p = certAndKey\<lparr>Leaf := Some leaf\<rparr>"
    unfolding generation_def paired_def decoded_def by blast
  from run_returned [OF assms(2) [unfolded assms(1)]] obtain es1 es2 where
    es: "es = es1 @ Run i # es2" and load: "calls (run L ?s0 es1) i = getCertificate_49"
    and slot: "cached (store (run L ?s0 es1)) = Some p"
    by blast
  have "consistent L (run L ?s0 es1)"
    by (rule consistent_run [OF consistent_start])
  from consistent_cached [OF this slot] have "frozen (run L ?s0 es1) p"
    by simp
  from frozen_run [OF this, of L "Run i # es2"] have "heap s ! p = heap (run L ?s0 es1) ! p"
    unfolding assms(1) es run_append by simp
  with es load slot have 3: "\<exists>es1 es2. es = es1 @ Run i # es2 \<and>
            calls (run L ?s0 es1) i = getCertificate_49 \<and>
            cached (store (run L ?s0 es1)) = Some p \<and> heap (run L ?s0 es1) ! p = heap s ! p"
    by auto
  have 4: "\<forall>es'. heap (run L s es') ! p = heap s ! p"
    using frozen_run [OF frozen] by simp
  from 1 2 3 4 show ?thesis
    by blast
qed

theorem getCertificate_one_generation_witness:
  "calls (run exampleLibs exampleStart exampleBefore) 1 = getCertificate_returned (Some 0) \<and>
   calls (run exampleLibs exampleStart exampleBefore) 2 = reload_79 1 \<and>
   heap (run exampleLibs exampleStart exampleBefore) ! 0 = exampleBundle \<and>
   heap (run exampleLibs exampleStart exampleBefore) ! 1 = exampleBundle2 \<and>
   heap (run exampleLibs (run exampleLibs exampleStart exampleBefore) exampleAfter) ! 0 = exampleBundle \<and>
   calls (run exampleLibs (run exampleLibs exampleStart exampleBefore) exampleAfter) 3 =
     getCertificate_returned (Some 1)"
proof -
  have returned: "calls (run exampleLibs
      (start exampleWorld ''server.p12'' ''secret'' (\<lambda>i. i = 0 \<or> i = 2)) exampleBefore) 1 =
      getCertificate_returned (Some 0)"
    using example_run_calls(1) by (simp add: exampleStart_def)
  from getCertificate_one_generation [OF refl returned]
  have "\<forall>es'. heap (run exampleLibs (run exampleLibs exampleStart exampleBefore) es') ! 0 =
      heap (run exampleLibs exampleStart exampleBefore) ! 0"
    by (simp add: exampleStart_def)
  then have "heap (run exampleLibs (run exampleLibs exampleStart exampleBefore) exampleAfter) ! 0 =
      heap (run exampleLibs exampleStart exampleBefore) ! 0"
    by blast
  with example_run_heap example_run_calls example_run_after show ?thesis
    by simp
qed

end
